theory Spec2Isabelle
  imports Main "HOL-Library.Word"
begin

section \<open>Go standard library functions the code relies on\<close>

text \<open>
  Go strings are byte sequences; they are modelled as \<open>string\<close> (a list of characters).
  The functions of this section are not part of the repository: they are the standard
  library calls the repository's code makes, written after their documented behaviour.
\<close>

subsection \<open>strings.SplitN and strings.Join\<close>

text \<open>
  \<open>strings.SplitN(s, sep, n)\<close> for a one-byte separator and \<open>n \<ge> 0\<close>: no pieces for
  \<open>n = 0\<close>; otherwise at most \<open>n\<close> pieces, cut at the leftmost separators, the last piece
  being the unsplit remainder.
\<close>

fun SplitN :: "string \<Rightarrow> char \<Rightarrow> nat \<Rightarrow> string list" where
  "SplitN s sep 0 = []"
| "SplitN s sep (Suc 0) = [s]"
| "SplitN s sep (Suc (Suc n)) =
     (if sep \<in> set s
      then takeWhile (\<lambda>c. c \<noteq> sep) s # SplitN (tl (dropWhile (\<lambda>c. c \<noteq> sep) s)) sep (Suc n)
      else [s])"

text \<open>\<open>strings.Join(elems, sep)\<close>: the elements with \<open>sep\<close> between neighbours.\<close>

fun strings_Join :: "string list \<Rightarrow> string \<Rightarrow> string" where
  "strings_Join [] sep = []"
| "strings_Join [e] sep = e"
| "strings_Join (e # e' # es) sep = e @ sep @ strings_Join (e' # es) sep"

subsection \<open>path/filepath on a system whose separator is the slash\<close>

text \<open>The pieces of a string between separators (\<open>strings.Split\<close> with a one-byte separator).\<close>

fun Split :: "string \<Rightarrow> char \<Rightarrow> string list" where
  "Split [] sep = [[]]"
| "Split (c # cs) sep =
     (if c = sep then [] # Split cs sep
      else (case Split cs sep of [] \<Rightarrow> [[c]] | p # ps \<Rightarrow> (c # p) # ps))"

text \<open>
  \<open>filepath.Clean\<close> works through the path elements from left to right. The elements kept
  so far form a stack (most recent first). An empty element and \<open>.\<close> are dropped; \<open>..\<close>
  removes the element before it when that is not itself \<open>..\<close>, is dropped at the root of a
  rooted path, and is kept at the start of a relative path; any other element is kept.
\<close>

fun cleanStep :: "bool \<Rightarrow> string list \<Rightarrow> string \<Rightarrow> string list" where
  "cleanStep rooted st e =
     (if e = [] \<or> e = ''.'' then st
      else if e = ''..'' then
        (case st of
           [] \<Rightarrow> (if rooted then [] else [''..''])
         | t # ts \<Rightarrow> (if t = ''..'' then ''..'' # t # ts else ts))
      else e # st)"

definition Clean :: "string \<Rightarrow> string" where
  "Clean path =
     (let rooted = (path \<noteq> [] \<and> hd path = CHR ''/'');
          st = foldl (cleanStep rooted) [] (Split path (CHR ''/''))
      in if rooted then ''/'' @ strings_Join (rev st) ''/''
         else if st = [] then ''.''
         else strings_Join (rev st) ''/'')"

text \<open>
  \<open>filepath.Join(elem...)\<close>: leading empty elements are skipped, the rest is joined with
  the separator and cleaned; when every element is empty the result is the empty string.
\<close>

definition Join :: "string list \<Rightarrow> string" where
  "Join elem =
     (case dropWhile (\<lambda>e. e = []) elem of
        [] \<Rightarrow> []
      | es \<Rightarrow> Clean (strings_Join es ''/''))"

text \<open>\<open>os.Getenv\<close>: the value of the variable, empty when it is not set.\<close>

definition Getenv :: "(string \<rightharpoonup> string) \<Rightarrow> string \<Rightarrow> string" where
  "Getenv environ key = (case environ key of None \<Rightarrow> [] | Some v \<Rightarrow> v)"

section \<open>The synchronization command (cmd/werf/synchronization)\<close>

subsection \<open>Errors\<close>

text \<open>
  Go errors are values. \<open>Err\<close> is an error produced by a collaborator outside the modelled
  code; the other constructors are the errors the modelled code builds with \<open>fmt.Errorf\<close>,
  one per format string, holding the formatted arguments.
\<close>

datatype error =
    Err string
  | InitializationError error
  | CannotInitializeKube error
  | CannotInitKubedog error
  | UnableToCreateContainer string error
  | UnableToMountContainer string error
  | UnableToPrepareContainer string error
  | UnableToRun string error
  | UnableToSetConfig string error
  | UnableToCommit string error
  | ErrorGettingInspect string error
  | InvalidBuildArgument string

subsection \<open>Flags\<close>

text \<open>The package variable \<open>cmdData\<close>.\<close>

record CmdData =
  Kubernetes :: bool
  KubernetesNamespacePrefix :: string
  Local :: bool
  LocalLockManagerBaseDir :: string
  LocalStagesStorageCacheBaseDir :: string
  TTL :: string
  Host :: string
  Port :: string

text \<open>
  What the user typed: for each flag of \<open>NewCmd\<close>, the value given on the command line, or
  \<open>None\<close> when the flag was not given.
\<close>

record CmdLine =
  flag_local :: "bool option"
  flag_local_lock_manager_base_dir :: "string option"
  flag_local_stages_storage_cache_base_dir :: "string option"
  flag_kubernetes :: "bool option"
  flag_kubernetes_namespace_prefix :: "string option"
  flag_ttl :: "string option"
  flag_host :: "string option"
  flag_port :: "string option"

text \<open>
  \<open>Flags().StringVarP(&p, name, shorthand, value, usage)\<close> and \<open>BoolVarP\<close>: the variable
  holds the default \<open>value\<close> unless the flag is given on the command line.
\<close>

definition VarP :: "'a option \<Rightarrow> 'a \<Rightarrow> 'a" where
  "VarP given dflt = (case given of None \<Rightarrow> dflt | Some v \<Rightarrow> v)"

text \<open>
  The flag set-up of \<open>NewCmd\<close>, followed by the parsing of the command line. The two
  helpers \<open>common.GetBoolEnvironmentDefaultTrue\<close> and \<open>common.GetBoolEnvironmentDefaultFalse\<close>
  are declared in another package and are parameters here.
\<close>

definition NewCmd ::
  "(string \<Rightarrow> bool) \<Rightarrow> (string \<Rightarrow> bool) \<Rightarrow> (string \<rightharpoonup> string) \<Rightarrow> CmdLine \<Rightarrow> CmdData" where
  "NewCmd GetBoolEnvironmentDefaultTrue GetBoolEnvironmentDefaultFalse environ args =
     \<lparr> Kubernetes = VarP (flag_kubernetes args) (GetBoolEnvironmentDefaultFalse ''WERF_KUBERNETES''),
       KubernetesNamespacePrefix =
         VarP (flag_kubernetes_namespace_prefix args) (Getenv environ ''WERF_KUBERNETES_NAMESPACE_PREFIX''),
       Local = VarP (flag_local args) (GetBoolEnvironmentDefaultTrue ''WERF_LOCAL''),
       LocalLockManagerBaseDir =
         VarP (flag_local_lock_manager_base_dir args) (Getenv environ ''WERF_LOCAL_LOCK_MANAGER_BASE_DIR''),
       LocalStagesStorageCacheBaseDir =
         VarP (flag_local_stages_storage_cache_base_dir args)
           (Getenv environ ''WERF_LOCAL_STAGES_STORAGE_CACHE_BASE_DIR''),
       TTL = VarP (flag_ttl args) (Getenv environ ''WERF_TTL''),
       Host = VarP (flag_host args) (Getenv environ ''WERF_HOST''),
       Port = VarP (flag_port args) (Getenv environ ''WERF_PORT'') \<rparr>"

subsection \<open>Storage objects\<close>

text \<open>
  The constructors of the storage package and of lockgate belong to other packages.
  An object is recorded as the constructor that made it together with the argument it was
  made from: the namespace name or the directory it works on.
\<close>

datatype FileLocker = NewFileLocker string

datatype LockManager =
    NewKubernetesLockManager string
  | NewGenericLockManager FileLocker

datatype StagesStorageCache =
    NewKubernetesStagesStorageCache string
  | NewFileStagesStorageCache string

text \<open>
  What \<open>runSynchronization\<close> reads from its surroundings: the outcome of the three
  initialisation calls (\<open>None\<close> is a nil error), the werf home directory, and the error, if
  any, with which \<open>lockgate.NewFileLocker\<close> refuses a directory.
\<close>

record Surroundings =
  werf_Init :: "error option"
  kube_Init :: "error option"
  InitKubedog :: "error option"
  GetHomeDir :: string
  NewFileLocker_error :: "string \<Rightarrow> error option"

text \<open>
  \<open>runSynchronization\<close> ends either by returning an error or in the call
  \<open>synchronization_server.RunSynchronizationServer(host, port, lockManagerFactoryFunc,
  stagesStorageCacheFactoryFunc)\<close>, whose result it returns. The server belongs to another
  package, so the outcome records the call with its four arguments.
\<close>

datatype Outcome =
    Failed error
  | RunSynchronizationServer string string
      "string \<Rightarrow> error + LockManager" "string \<Rightarrow> error + StagesStorageCache"

subsection \<open>runSynchronization\<close>

text \<open>The two factory closures of the Kubernetes branch; \<open>fmt.Sprintf("%s%s", prefix, clientID)\<close>
  is the concatenation.\<close>

definition kubernetesLockManagerFactoryFunc :: "string \<Rightarrow> string \<Rightarrow> error + LockManager" where
  "kubernetesLockManagerFactoryFunc prefix clientID = Inr (NewKubernetesLockManager (prefix @ clientID))"

definition kubernetesStagesStorageCacheFactoryFunc ::
  "string \<Rightarrow> string \<Rightarrow> error + StagesStorageCache" where
  "kubernetesStagesStorageCacheFactoryFunc prefix clientID =
     Inr (NewKubernetesStagesStorageCache (prefix @ clientID))"

text \<open>The two factory closures of the local branch.\<close>

definition localLockManagerFactoryFunc ::
  "Surroundings \<Rightarrow> string \<Rightarrow> string \<Rightarrow> error + LockManager" where
  "localLockManagerFactoryFunc sur lockManagerBaseDir clientID =
     (case NewFileLocker_error sur (Join [lockManagerBaseDir, clientID]) of
        Some err \<Rightarrow> Inl err
      | None \<Rightarrow> Inr (NewGenericLockManager (NewFileLocker (Join [lockManagerBaseDir, clientID]))))"

definition localStagesStorageCacheFactoryFunc :: "string \<Rightarrow> string \<Rightarrow> error + StagesStorageCache" where
  "localStagesStorageCacheFactoryFunc stagesStorageCacheBaseDir clientID =
     Inr (NewFileStagesStorageCache (Join [stagesStorageCacheBaseDir, clientID]))"

definition runSynchronization :: "Surroundings \<Rightarrow> CmdData \<Rightarrow> Outcome" where
  "runSynchronization sur cmdData =
     (case werf_Init sur of
        Some err \<Rightarrow> Failed (InitializationError err)
      | None \<Rightarrow>
          (let host = (if Host cmdData = [] then ''localhost'' else Host cmdData);
               port = (if Port cmdData = [] then ''55581'' else Port cmdData)
           in if Kubernetes cmdData then
                (case kube_Init sur of
                   Some err \<Rightarrow> Failed (CannotInitializeKube err)
                 | None \<Rightarrow>
                     (case InitKubedog sur of
                        Some err \<Rightarrow> Failed (CannotInitKubedog err)
                      | None \<Rightarrow>
                          (let prefix = (if KubernetesNamespacePrefix cmdData = []
                                         then ''werf-synchronization-''
                                         else KubernetesNamespacePrefix cmdData)
                           in RunSynchronizationServer host port
                                (kubernetesLockManagerFactoryFunc prefix)
                                (kubernetesStagesStorageCacheFactoryFunc prefix))))
              else
                (let lockManagerBaseDir =
                       (if LocalLockManagerBaseDir cmdData = []
                        then Join [GetHomeDir sur, ''synchronization_server'', ''lock_manager'']
                        else LocalLockManagerBaseDir cmdData);
                     stagesStorageCacheBaseDir =
                       (if LocalStagesStorageCacheBaseDir cmdData = []
                        then Join [GetHomeDir sur, ''synchronization_server'', ''stages_storage_cache'']
                        else LocalStagesStorageCacheBaseDir cmdData)
                 in RunSynchronizationServer host port
                      (localLockManagerFactoryFunc sur lockManagerBaseDir)
                      (localStagesStorageCacheFactoryFunc stagesStorageCacheBaseDir))))"

text \<open>The backend an object belongs to.\<close>

datatype Backend = Cluster | LocalFiles

fun lockManagerBackend :: "LockManager \<Rightarrow> Backend" where
  "lockManagerBackend (NewKubernetesLockManager ns) = Cluster"
| "lockManagerBackend (NewGenericLockManager locker) = LocalFiles"

fun stagesStorageCacheBackend :: "StagesStorageCache \<Rightarrow> Backend" where
  "stagesStorageCacheBackend (NewKubernetesStagesStorageCache ns) = Cluster"
| "stagesStorageCacheBackend (NewFileStagesStorageCache dir) = LocalFiles"

text \<open>The storage location an object works on: a namespace name or a directory.\<close>

fun lockManagerLocation :: "LockManager \<Rightarrow> string" where
  "lockManagerLocation (NewKubernetesLockManager ns) = ns"
| "lockManagerLocation (NewGenericLockManager (NewFileLocker dir)) = dir"

fun stagesStorageCacheLocation :: "StagesStorageCache \<Rightarrow> string" where
  "stagesStorageCacheLocation (NewKubernetesStagesStorageCache ns) = ns"
| "stagesStorageCacheLocation (NewFileStagesStorageCache dir) = dir"

section \<open>The buildah container backend (pkg/container_backend)\<close>

subsection \<open>The build engine as a collaborator\<close>

text \<open>
  \<open>buildah.CommonOpts\<close>: only the log writer is set by this code; \<open>LogWriter\<close> tells whether
  one is attached. \<open>getBuildahCommonOpts\<close> attaches it unless the log is suppressed.
\<close>

record CommonOpts =
  LogWriter :: bool

definition getBuildahCommonOpts :: "bool \<Rightarrow> CommonOpts" where
  "getBuildahCommonOpts suppressLog = \<lparr> LogWriter = (if suppressLog then False else True) \<rparr>"

text \<open>\<open>specs.Mount\<close>, with the three fields the code fills in.\<close>

record Mount =
  Type :: string
  Source :: string
  Destination :: string

text \<open>
  Every call the backend makes on the build engine, and on a prepare-container action,
  with its arguments. A prepare-container action is known by its name.
\<close>

datatype call =
    FromCommand string string CommonOpts
  | MountContainer string CommonOpts
  | Umount string CommonOpts
  | PrepareContainer string string
  | RunCommand string "string list" CommonOpts "Mount list"
  | Config string CommonOpts "string list"
  | Commit string CommonOpts
  | BuildFromDockerfile string CommonOpts string "string \<rightharpoonup> string" string

text \<open>
  What a call gives back: a string (the container, the mount point, the image identifier;
  unused by the calls that return an error only) and an error, \<open>None\<close> when it is nil.
\<close>

record Reply =
  ret :: string
  err :: "error option"

text \<open>
  The engine is stateful, so its answer to a call may depend on everything that was called
  before. The history of calls with their answers is the state, and the engine is any
  function from the history and a call to an answer.
\<close>

type_synonym history = "(call \<times> Reply) list"
type_synonym engine = "history \<Rightarrow> call \<Rightarrow> Reply"

definition invoke :: "engine \<Rightarrow> history \<Rightarrow> call \<Rightarrow> Reply \<times> history" where
  "invoke eng h c = (eng h c, h @ [(c, eng h c)])"

subsection \<open>BuildStapelStage\<close>

record BuildStapelStageOpts =
  PrepareContainerActions :: "string list"
  UserCommands :: "string list"
  BuildVolumes :: "string list"
  Labels :: "string list"

text \<open>A call of the function ends by returning its pair of results or by a panic.\<close>

datatype panic = InvalidVolume string

datatype Result = Return string "error option" | Panic panic

text \<open>The loop over \<open>opts.PrepareContainerActions\<close>: it stops at the first action that fails.\<close>

fun prepareContainerLoop :: "engine \<Rightarrow> history \<Rightarrow> string \<Rightarrow> string list \<Rightarrow> error option \<times> history" where
  "prepareContainerLoop eng h containerRoot [] = (None, h)"
| "prepareContainerLoop eng h containerRoot (action # actions) =
     (case invoke eng h (PrepareContainer action containerRoot) of
        (r, h') \<Rightarrow>
          (case err r of
             Some e \<Rightarrow> (Some (UnableToPrepareContainer containerRoot e), h')
           | None \<Rightarrow> prepareContainerLoop eng h' containerRoot actions))"

text \<open>
  The block guarded by \<open>len(opts.PrepareContainerActions) > 0\<close>: mount the container, run
  the actions, and unmount on the way out (the deferred call, whose result is dropped).
  The unmount is deferred only after the mount has succeeded.
\<close>

definition prepareContainer :: "engine \<Rightarrow> history \<Rightarrow> string \<Rightarrow> string list \<Rightarrow> error option \<times> history" where
  "prepareContainer eng h containerID actions =
     (if actions = [] then (None, h)
      else
        (case invoke eng h (MountContainer containerID (getBuildahCommonOpts True)) of
           (r, h1) \<Rightarrow>
             (case err r of
                Some e \<Rightarrow> (Some (UnableToMountContainer containerID e), h1)
              | None \<Rightarrow>
                  (case prepareContainerLoop eng h1 (ret r) actions of
                     (res, h2) \<Rightarrow>
                       (res, snd (invoke eng h2 (Umount (ret r) (getBuildahCommonOpts True))))))))"

text \<open>
  The inner loop over \<open>opts.BuildVolumes\<close>: each volume is split at its first colon into
  source and destination; a volume without a colon panics.
\<close>

fun buildMounts :: "Mount list \<Rightarrow> string list \<Rightarrow> panic + Mount list" where
  "buildMounts mounts [] = Inr mounts"
| "buildMounts mounts (volume # volumes) =
     (case SplitN volume (CHR '':'') 2 of
        [src, dst] \<Rightarrow>
          buildMounts (mounts @ [\<lparr> Type = ''bind'', Source = src, Destination = dst \<rparr>]) volumes
      | _ \<Rightarrow> Inl (InvalidVolume volume))"

text \<open>
  The loop over \<open>opts.UserCommands\<close>: for each command the mounts are built anew and the
  command is run through \<open>sh -c\<close>. \<open>None\<close> means the loop ran to its end; otherwise the
  function ends with the given result.
\<close>

fun runUserCommands ::
  "engine \<Rightarrow> history \<Rightarrow> string \<Rightarrow> string list \<Rightarrow> string list \<Rightarrow> Result option \<times> history" where
  "runUserCommands eng h containerID volumes [] = (None, h)"
| "runUserCommands eng h containerID volumes (cmd # cmds) =
     (case buildMounts [] volumes of
        Inl p \<Rightarrow> (Some (Panic p), h)
      | Inr mounts \<Rightarrow>
          (case invoke eng h
                  (RunCommand containerID [''sh'', ''-c'', cmd] (getBuildahCommonOpts False) mounts) of
             (r, h') \<Rightarrow>
               (case err r of
                  Some e \<Rightarrow> (Some (Return [] (Some (UnableToRun cmd e))), h')
                | None \<Rightarrow> runUserCommands eng h' containerID volumes cmds)))"

text \<open>The last two steps: the labels are configured and the container is committed.\<close>

definition configAndCommit :: "engine \<Rightarrow> history \<Rightarrow> string \<Rightarrow> string list \<Rightarrow> Result \<times> history" where
  "configAndCommit eng h containerID labels =
     (case invoke eng h (Config containerID (getBuildahCommonOpts True) labels) of
        (r, h1) \<Rightarrow>
          (case err r of
             Some e \<Rightarrow> (Return [] (Some (UnableToSetConfig containerID e)), h1)
           | None \<Rightarrow>
               (case invoke eng h1 (Commit containerID (getBuildahCommonOpts True)) of
                  (r', h2) \<Rightarrow>
                    (case err r' of
                       Some e \<Rightarrow> (Return [] (Some (UnableToCommit containerID e)), h2)
                     | None \<Rightarrow> (Return (ret r') None, h2)))))"

text \<open>
  \<open>BuildStapelStage\<close>. The identifier drawn by \<open>uuid.New()\<close> is the parameter \<open>uuid\<close>.
  The result comes with the history of the calls made.
\<close>

definition BuildStapelStage ::
  "engine \<Rightarrow> history \<Rightarrow> string \<Rightarrow> string \<Rightarrow> BuildStapelStageOpts \<Rightarrow> Result \<times> history" where
  "BuildStapelStage eng h uuid baseImage opts =
     (let containerID = ''werf-stage-build-'' @ uuid
      in case invoke eng h (FromCommand containerID baseImage (getBuildahCommonOpts True)) of
           (r, h1) \<Rightarrow>
             (case err r of
                Some e \<Rightarrow> (Return [] (Some (UnableToCreateContainer baseImage e)), h1)
              | None \<Rightarrow>
                  (case prepareContainer eng h1 containerID (PrepareContainerActions opts) of
                     (Some e, h2) \<Rightarrow> (Return [] (Some e), h2)
                   | (None, h2) \<Rightarrow>
                       (case runUserCommands eng h2 containerID (BuildVolumes opts) (UserCommands opts) of
                          (Some res, h3) \<Rightarrow> (res, h3)
                        | (None, h3) \<Rightarrow> configAndCommit eng h3 containerID (Labels opts)))))"

subsection \<open>GetImageInfo\<close>

text \<open>
  The part of the inspect result the code reads (\<open>inspect.Docker\<close> and its \<open>Config\<close>);
  fields of the nested structures carry the structure's name as a prefix. The structures
  are declared in the build engine's packages: \<open>inspect.Docker\<close> is a structure held by
  value, while its \<open>Config\<close> is a pointer to the configuration and may be nil (\<open>None\<close>). A
  \<open>time.Time\<close> is its seconds and nanoseconds since the Unix epoch; \<open>UnixNano\<close> is computed
  in 64 bits.
\<close>

datatype Time = Time (unixSec: int) (nsec: int)

definition UnixNano :: "Time \<Rightarrow> 64 word" where
  "UnixNano t = word_of_int (unixSec t * 1000000000 + nsec t)"

record DockerConfig =
  Config_Labels :: "string \<rightharpoonup> string"
  Config_OnBuild :: "string list"
  Config_Image :: string

record DockerInspect =
  Docker_Config :: "DockerConfig option"
  Docker_Created :: Time
  Docker_ID :: string
  Docker_Size :: "64 word"

record BuilderInfo =
  Docker :: DockerInspect

text \<open>\<open>image.Info\<close>, with the fields \<open>GetImageInfo\<close> fills in.\<close>

record Info =
  Name :: string
  Repository :: string
  Tag :: string
  Info_Labels :: "string \<rightharpoonup> string"
  CreatedAtUnixNano :: "64 word"
  OnBuild :: "string list"
  ID :: string
  ParentID :: string
  Size :: "64 word"

text \<open>
  A call of \<open>GetImageInfo\<close> ends by returning Go's pair of a pointer (\<open>None\<close> is nil) and an
  error, or by the run-time panic of a nil pointer dereference.
\<close>

datatype InfoResult = ReturnInfo "Info option" "error option" | NilPointerDereference

text \<open>
  \<open>Inspect\<close> is the answer of \<open>buildah.Inspect\<close> for a reference: a pointer (\<open>None\<close> is nil)
  and an error. \<open>image.ParseRepositoryAndTag\<close> is declared in another package and is
  the parameter \<open>ParseRepositoryAndTag\<close>. The code reads \<open>inspect.Docker.Config.Labels\<close>,
  \<open>.OnBuild\<close> and \<open>.Image\<close> without testing the \<open>Config\<close> pointer.
\<close>

definition GetImageInfo ::
  "(string \<Rightarrow> BuilderInfo option \<times> error option) \<Rightarrow> (string \<Rightarrow> string \<times> string) \<Rightarrow> string
     \<Rightarrow> InfoResult" where
  "GetImageInfo Inspect ParseRepositoryAndTag ref =
     (case Inspect ref of
        (inspect, Some e) \<Rightarrow> ReturnInfo None (Some (ErrorGettingInspect ref e))
      | (None, None) \<Rightarrow> ReturnInfo None None
      | (Some inspect, None) \<Rightarrow>
          (case ParseRepositoryAndTag ref of
             (repository, tag) \<Rightarrow>
               (case Docker_Config (Docker inspect) of
                  None \<Rightarrow> NilPointerDereference
                | Some config \<Rightarrow>
                    ReturnInfo
                      (Some \<lparr> Name = ref,
                              Repository = repository,
                              Tag = tag,
                              Info_Labels = Config_Labels config,
                              CreatedAtUnixNano = UnixNano (Docker_Created (Docker inspect)),
                              OnBuild = Config_OnBuild config,
                              ID = Docker_ID (Docker inspect),
                              ParentID = Config_Image config,
                              Size = Docker_Size (Docker inspect) \<rparr>)
                      None)))"

subsection \<open>BuildDockerfile\<close>

record BuildDockerfileOpts =
  ContextTar :: string
  BuildArgs :: "string list"
  Target :: string

text \<open>
  The loop over \<open>opts.BuildArgs\<close>: each argument is split at its first equals sign and
  stored in the map; an argument without one ends the function with an error.
\<close>

fun parseBuildArgs :: "(string \<rightharpoonup> string) \<Rightarrow> string list \<Rightarrow> error + (string \<rightharpoonup> string)" where
  "parseBuildArgs buildArgs [] = Inr buildArgs"
| "parseBuildArgs buildArgs (argStr # args) =
     (case SplitN argStr (CHR ''='') 2 of
        k # v # rest \<Rightarrow> parseBuildArgs (buildArgs(k \<mapsto> v)) args
      | _ \<Rightarrow> Inl (InvalidBuildArgument argStr))"

definition BuildDockerfile ::
  "engine \<Rightarrow> history \<Rightarrow> string \<Rightarrow> BuildDockerfileOpts \<Rightarrow> (string \<times> error option) \<times> history" where
  "BuildDockerfile eng h dockerfile opts =
     (case parseBuildArgs Map.empty (BuildArgs opts) of
        Inl e \<Rightarrow> (([], Some e), h)
      | Inr buildArgs \<Rightarrow>
          (case invoke eng h
                  (BuildFromDockerfile dockerfile \<lparr> LogWriter = True \<rparr> (ContextTar opts) buildArgs (Target opts)) of
             (r, h') \<Rightarrow> ((ret r, err r), h')))"

section \<open>Notions used to state the properties\<close>

text \<open>
  A client identifier that is a single path element: not empty, without a separator, and
  neither \<open>.\<close> nor \<open>..\<close>.
\<close>

definition isPathElement :: "string \<Rightarrow> bool" where
  "isPathElement e = (e \<noteq> [] \<and> CHR ''/'' \<notin> set e \<and> e \<noteq> ''.'' \<and> e \<noteq> ''..'')"

text \<open>
  The path of the entry \<open>e\<close> of the directory \<open>dir\<close>, for a cleaned \<open>dir\<close>: the root and the
  current directory take no separator of their own.
\<close>

definition subdirectory :: "string \<Rightarrow> string \<Rightarrow> string" where
  "subdirectory dir e =
     (if dir = ''/'' then ''/'' @ e else if dir = ''.'' then e else dir @ ''/'' @ e)"

text \<open>What \<open>Clean\<close> leaves of a base directory in front of a path element joined to it.\<close>

definition cleanPrefix :: "string \<Rightarrow> string" where
  "cleanPrefix base =
     (let rooted = (hd base = CHR ''/'');
          st = foldl (cleanStep rooted) [] (Split base (CHR ''/''))
      in (if rooted then ''/'' else []) @ (if st = [] then [] else strings_Join (rev st) ''/'' @ ''/''))"

text \<open>The bind mount the code makes from a volume \<open>SOURCE:DESTINATION\<close>.\<close>

definition bindMount :: "string \<Rightarrow> Mount" where
  "bindMount volume =
     \<lparr> Type = ''bind'', Source = takeWhile (\<lambda>c. c \<noteq> CHR '':'') volume,
       Destination = tl (dropWhile (\<lambda>c. c \<noteq> CHR '':'') volume) \<rparr>"

text \<open>
  A step is a call other than the deferred unmount, whose result the code drops. A step
  has failed when its answer carries an error.
\<close>

fun isUmount :: "call \<Rightarrow> bool" where
  "isUmount (Umount root opts) = True"
| "isUmount c = False"

definition failedStep :: "call \<times> Reply \<Rightarrow> bool" where
  "failedStep ev = (err (snd ev) \<noteq> None \<and> \<not> isUmount (fst ev))"

definition stepsOK :: "history \<Rightarrow> bool" where
  "stepsOK evs = list_all (\<lambda>ev. \<not> failedStep ev) evs"

definition onlyUmount :: "history \<Rightarrow> bool" where
  "onlyUmount evs = list_all (\<lambda>ev. isUmount (fst ev)) evs"

text \<open>The calls of a complete run of \<open>BuildStapelStage\<close>, in order.\<close>

definition stagePlan :: "string \<Rightarrow> string \<Rightarrow> string \<Rightarrow> BuildStapelStageOpts \<Rightarrow> call list" where
  "stagePlan containerID baseImage containerRoot opts =
     FromCommand containerID baseImage (getBuildahCommonOpts True)
     # (if PrepareContainerActions opts = [] then []
        else MountContainer containerID (getBuildahCommonOpts True)
             # map (\<lambda>a. PrepareContainer a containerRoot) (PrepareContainerActions opts)
             @ [Umount containerRoot (getBuildahCommonOpts True)])
     @ map (\<lambda>cmd. RunCommand containerID [''sh'', ''-c'', cmd] (getBuildahCommonOpts False)
                    (map bindMount (BuildVolumes opts))) (UserCommands opts)
     @ [Config containerID (getBuildahCommonOpts True) (Labels opts),
        Commit containerID (getBuildahCommonOpts True)]"

subsection \<open>Sample inputs\<close>

definition noFlags :: CmdLine where
  "noFlags = \<lparr> flag_local = None, flag_local_lock_manager_base_dir = None,
       flag_local_stages_storage_cache_base_dir = None, flag_kubernetes = None,
       flag_kubernetes_namespace_prefix = None, flag_ttl = None, flag_host = None,
       flag_port = None \<rparr>"

definition quietSurroundings :: Surroundings where
  "quietSurroundings = \<lparr> werf_Init = None, kube_Init = None, InitKubedog = None,
       GetHomeDir = ''/home/ci/.werf'', NewFileLocker_error = (\<lambda>dir. None) \<rparr>"

definition localCmdData :: CmdData where
  "localCmdData = \<lparr> Kubernetes = False, KubernetesNamespacePrefix = [], Local = True,
       LocalLockManagerBaseDir = ''/srv/locks'', LocalStagesStorageCacheBaseDir = [],
       TTL = [], Host = [], Port = [] \<rparr>"

definition kubernetesCmdData :: CmdData where
  "kubernetesCmdData = \<lparr> Kubernetes = True, KubernetesNamespacePrefix = [], Local = True,
       LocalLockManagerBaseDir = [], LocalStagesStorageCacheBaseDir = [],
       TTL = [], Host = [], Port = [] \<rparr>"

definition sampleInspect :: "string \<Rightarrow> BuilderInfo option \<times> error option" where
  "sampleInspect ref =
     (if ref = ''repo:v1'' then
        (Some \<lparr> Docker = \<lparr> Docker_Config = Some \<lparr> Config_Labels = [''werf'' \<mapsto> ''shop''],
                                                   Config_OnBuild = [],
                                                   Config_Image = ''sha256:parent'' \<rparr>,
                            Docker_Created = Time 1600000000 5,
                            Docker_ID = ''sha256:image'',
                            Docker_Size = 4096 \<rparr> \<rparr>, None)
      else if ref = ''repo:bare'' then
        (Some \<lparr> Docker = \<lparr> Docker_Config = None,
                            Docker_Created = Time 1600000000 5,
                            Docker_ID = ''sha256:bare'',
                            Docker_Size = 0 \<rparr> \<rparr>, None)
      else if ref = ''repo:broken'' then (None, Some (Err ''storage is locked''))
      else (None, None))"

definition sampleParseRepositoryAndTag :: "string \<Rightarrow> string \<times> string" where
  "sampleParseRepositoryAndTag ref =
     (takeWhile (\<lambda>c. c \<noteq> CHR '':'') ref, drop 1 (dropWhile (\<lambda>c. c \<noteq> CHR '':'') ref))"

definition sampleEngine :: engine where
  "sampleEngine h c =
     (case c of
        MountContainer containerID opts \<Rightarrow> \<lparr> ret = ''/mnt/root'', err = None \<rparr>
      | Commit containerID opts \<Rightarrow> \<lparr> ret = ''sha256:built'', err = None \<rparr>
      | BuildFromDockerfile dockerfile opts contextTar buildArgs target \<Rightarrow>
          \<lparr> ret = ''sha256:built'', err = None \<rparr>
      | RunCommand containerID argv opts mounts \<Rightarrow>
          (if argv = [''sh'', ''-c'', ''false''] then \<lparr> ret = [], err = Some (Err ''exit status 1'') \<rparr>
           else \<lparr> ret = [], err = None \<rparr>)
      | _ \<Rightarrow> \<lparr> ret = [], err = None \<rparr>)"


definition goodStageOpts :: BuildStapelStageOpts where
  "goodStageOpts = \<lparr> PrepareContainerActions = [''copy-sources''], UserCommands = [''make''],
       BuildVolumes = [''/cache:/var/cache''], Labels = [''stage=build''] \<rparr>"

definition failingStageOpts :: BuildStapelStageOpts where
  "failingStageOpts = \<lparr> PrepareContainerActions = [], UserCommands = [''false'', ''make''],
       BuildVolumes = [], Labels = [] \<rparr>"


section \<open>Properties of the path functions\<close>

lemma Split_not_Nil: "Split s sep \<noteq> []"
  by (induction s) (auto split: list.splits)

lemma Split_append: "Split (xs @ sep # ys) sep = Split xs sep @ Split ys sep"
  by (induction xs) (auto split: list.splits simp: Split_not_Nil)

lemma Split_no_sep: "sep \<notin> set s \<Longrightarrow> Split s sep = [s]"
  by (induction s) auto

lemma strings_Join_snoc:
  "strings_Join (xs @ [e]) sep = (if xs = [] then e else strings_Join xs sep @ sep @ e)"
  by (induction xs sep rule: strings_Join.induct) auto

lemma cleanStep_nonempty:
  "[] \<notin> set st \<Longrightarrow> [] \<notin> set (cleanStep rooted st e)"
  by (auto split: list.splits)

lemma foldl_cleanStep_nonempty:
  "[] \<notin> set st \<Longrightarrow> [] \<notin> set (foldl (cleanStep rooted) st es)"
  by (induction es arbitrary: st) (simp_all add: cleanStep_nonempty del: cleanStep.simps)

lemma strings_Join_nonempty:
  "xs \<noteq> [] \<Longrightarrow> [] \<notin> set xs \<Longrightarrow> sep \<noteq> [] \<Longrightarrow> strings_Join xs sep \<noteq> []"
  by (induction xs sep rule: strings_Join.induct) auto

lemma Clean_nonempty: "Clean path \<noteq> []"
proof -
  let ?rooted = "path \<noteq> [] \<and> hd path = CHR ''/''"
  let ?st = "foldl (cleanStep ?rooted) [] (Split path (CHR ''/''))"
  have "[] \<notin> set ?st" by (rule foldl_cleanStep_nonempty) simp
  then have "?st \<noteq> [] \<Longrightarrow> strings_Join (rev ?st) ''/'' \<noteq> []"
    by (intro strings_Join_nonempty) auto
  then show ?thesis
    by (auto simp: Clean_def Let_def)
qed

lemma Join_two: "base \<noteq> [] \<Longrightarrow> Join [base, e] = Clean (base @ CHR ''/'' # e)"
  by (simp add: Join_def)

lemma Join_three_nonempty: "Join [a, b # bs, c] \<noteq> []"
  by (cases "a = []") (simp_all add: Join_def Clean_nonempty)

lemma foldl_cleanStep_element:
  assumes "isPathElement e"
  shows "foldl (cleanStep r) [] (Split (base @ CHR ''/'' # e) (CHR ''/'')) =
           e # foldl (cleanStep r) [] (Split base (CHR ''/''))"
proof -
  have "Split (base @ CHR ''/'' # e) (CHR ''/'') = Split base (CHR ''/'') @ [e]"
    using assms by (simp add: Split_append Split_no_sep isPathElement_def)
  then show ?thesis
    using assms by (simp add: isPathElement_def)
qed

lemma Clean_element:
  assumes "base \<noteq> []" and "isPathElement e"
  shows "Clean (base @ CHR ''/'' # e) = cleanPrefix base @ e"
proof (cases "hd base = CHR ''/''")
  case True
  then show ?thesis
    using assms(1)
    by (simp add: Clean_def cleanPrefix_def foldl_cleanStep_element[OF assms(2)] strings_Join_snoc)
next
  case False
  then show ?thesis
    using assms(1)
    by (simp add: Clean_def cleanPrefix_def foldl_cleanStep_element[OF assms(2)] strings_Join_snoc)
qed

lemma Join_element_inj:
  assumes "base \<noteq> []" "isPathElement e1" "isPathElement e2" "Join [base, e1] = Join [base, e2]"
  shows "e1 = e2"
  using assms by (simp add: Join_two Clean_element)

lemma cleanStep_no_dot:
  "''.'' \<notin> set st \<Longrightarrow> ''.'' \<notin> set (cleanStep rooted st e)"
  by (auto split: list.splits)

lemma foldl_cleanStep_no_dot:
  "''.'' \<notin> set st \<Longrightarrow> ''.'' \<notin> set (foldl (cleanStep rooted) st es)"
  by (induction es arbitrary: st) (simp_all add: cleanStep_no_dot del: cleanStep.simps)

lemma strings_Join_not_dot:
  assumes "xs \<noteq> []" "[] \<notin> set xs" "''.'' \<notin> set xs"
  shows "strings_Join xs ''/'' \<noteq> ''.''"
proof (cases xs)
  case Nil
  with assms show ?thesis by simp
next
  case (Cons x ys)
  show ?thesis
  proof (cases ys)
    case Nil
    with Cons assms show ?thesis by auto
  next
    case (Cons y zs)
    with \<open>xs = x # ys\<close> have "CHR ''/'' \<in> set (strings_Join xs ''/'')" by simp
    then show ?thesis by auto
  qed
qed

lemma Split_pieces_no_sep: "p \<in> set (Split s sep) \<Longrightarrow> sep \<notin> set p"
  by (induction s arbitrary: p) (auto split: if_splits list.splits)

lemma cleanStep_subset:
  "set (cleanStep rooted st e) \<subseteq> set st \<union> {e} \<union> {''..''}"
  by (auto split: list.splits)

lemma foldl_cleanStep_subset:
  "set (foldl (cleanStep rooted) st es) \<subseteq> set st \<union> set es \<union> {''..''}"
proof (induction es arbitrary: st)
  case Nil
  then show ?case by auto
next
  case (Cons e es)
  have "set (foldl (cleanStep rooted) (cleanStep rooted st e) es)
          \<subseteq> set (cleanStep rooted st e) \<union> set es \<union> {''..''}"
    by (rule Cons.IH)
  also have "\<dots> \<subseteq> set st \<union> set (e # es) \<union> {''..''}"
    using cleanStep_subset[of rooted st e] by (auto simp del: cleanStep.simps)
  finally show ?case by (simp del: cleanStep.simps)
qed

lemma foldl_cleanStep_no_slash:
  "''/'' \<notin> set (foldl (cleanStep rooted) [] (Split s (CHR ''/'')))"
proof
  assume "''/'' \<in> set (foldl (cleanStep rooted) [] (Split s (CHR ''/'')))"
  with foldl_cleanStep_subset[of rooted "[]" "Split s (CHR ''/'')"]
  have "''/'' \<in> set (Split s (CHR ''/''))" by auto
  from Split_pieces_no_sep[OF this] show False by simp
qed

lemma strings_Join_not_slash:
  assumes "xs \<noteq> []" "[] \<notin> set xs" "''/'' \<notin> set xs"
  shows "strings_Join xs ''/'' \<noteq> ''/''"
proof (cases xs)
  case Nil
  with assms show ?thesis by simp
next
  case (Cons x ys)
  show ?thesis
  proof (cases ys)
    case Nil
    with Cons assms show ?thesis by auto
  next
    case (Cons y zs)
    with \<open>xs = x # ys\<close> assms(2) have "length (strings_Join xs ''/'') \<ge> 2"
      by (cases x) auto
    then show ?thesis by auto
  qed
qed

lemma Clean_element_subdirectory:
  assumes "base \<noteq> []" and "isPathElement e"
  shows "Clean (base @ CHR ''/'' # e) = subdirectory (Clean base) e"
proof -
  let ?r = "hd base = CHR ''/''"
  let ?st = "foldl (cleanStep ?r) [] (Split base (CHR ''/''))"
  have ne: "[] \<notin> set (rev ?st)" using foldl_cleanStep_nonempty[of "[]"] by simp
  have nd: "''.'' \<notin> set (rev ?st)" using foldl_cleanStep_no_dot[of "[]"] by simp
  have ns: "''/'' \<notin> set (rev ?st)" using foldl_cleanStep_no_slash by simp
  have j: "?st \<noteq> [] \<Longrightarrow> strings_Join (rev ?st) ''/'' \<noteq> []"
    using strings_Join_nonempty[OF _ ne] by simp
  have d: "?st \<noteq> [] \<Longrightarrow> strings_Join (rev ?st) ''/'' \<noteq> ''.''"
    using strings_Join_not_dot[OF _ ne nd] by simp
  have sl: "?st \<noteq> [] \<Longrightarrow> strings_Join (rev ?st) ''/'' \<noteq> ''/''"
    using strings_Join_not_slash[OF _ ne ns] by simp
  show ?thesis
  proof (cases ?r)
    case True
    then show ?thesis
      using assms(1) j
      by (simp add: Clean_def subdirectory_def foldl_cleanStep_element[OF assms(2)] strings_Join_snoc)
  next
    case False
    then show ?thesis
      using assms(1) d sl
      by (simp add: Clean_def subdirectory_def foldl_cleanStep_element[OF assms(2)] strings_Join_snoc)
  qed
qed

section \<open>Properties of the synchronization command\<close>

text \<open>The base directories of the local branch, as \<open>runSynchronization\<close> computes them.\<close>

lemma runSynchronization_cases:
  assumes "runSynchronization sur cmdData = RunSynchronizationServer host port lf cf"
  shows "werf_Init sur = None \<and>
         host = (if Host cmdData = [] then ''localhost'' else Host cmdData) \<and>
         port = (if Port cmdData = [] then ''55581'' else Port cmdData) \<and>
         (if Kubernetes cmdData
          then kube_Init sur = None \<and> InitKubedog sur = None \<and>
               lf = kubernetesLockManagerFactoryFunc
                      (if KubernetesNamespacePrefix cmdData = [] then ''werf-synchronization-''
                       else KubernetesNamespacePrefix cmdData) \<and>
               cf = kubernetesStagesStorageCacheFactoryFunc
                      (if KubernetesNamespacePrefix cmdData = [] then ''werf-synchronization-''
                       else KubernetesNamespacePrefix cmdData)
          else lf = localLockManagerFactoryFunc sur
                      (if LocalLockManagerBaseDir cmdData = []
                       then Join [GetHomeDir sur, ''synchronization_server'', ''lock_manager'']
                       else LocalLockManagerBaseDir cmdData) \<and>
               cf = localStagesStorageCacheFactoryFunc
                      (if LocalStagesStorageCacheBaseDir cmdData = []
                       then Join [GetHomeDir sur, ''synchronization_server'', ''stages_storage_cache'']
                       else LocalStagesStorageCacheBaseDir cmdData))"
  using assms
  by (simp add: runSynchronization_def Let_def split: option.splits if_splits)

lemma runSynchronization_quiet_local:
  "runSynchronization quietSurroundings localCmdData =
     RunSynchronizationServer ''localhost'' ''55581''
       (localLockManagerFactoryFunc quietSurroundings ''/srv/locks'')
       (localStagesStorageCacheFactoryFunc ''/home/ci/.werf/synchronization_server/stages_storage_cache'')"
  by (simp add: runSynchronization_def quietSurroundings_def localCmdData_def Join_def Clean_def)

lemma runSynchronization_quiet_kubernetes:
  "runSynchronization quietSurroundings kubernetesCmdData =
     RunSynchronizationServer ''localhost'' ''55581''
       (kubernetesLockManagerFactoryFunc ''werf-synchronization-'')
       (kubernetesStagesStorageCacheFactoryFunc ''werf-synchronization-'')"
  by (simp add: runSynchronization_def quietSurroundings_def kubernetesCmdData_def Let_def)


lemma local_base_dirs_nonempty:
  "(if dir = [] then Join [home, ''synchronization_server'', sub] else dir) \<noteq> []"
  by (simp add: Join_three_nonempty)

text \<open>
  C2. The backend is chosen once, by the Kubernetes flag, before the server is started:
  the server receives the pair of cluster factory functions when the flag is set and the
  pair of local file factory functions otherwise, and every object these functions make,
  for whatever client, belongs to that one backend.
\<close>

theorem backend_selected_at_startup:
  assumes "runSynchronization sur cmdData = RunSynchronizationServer host port lf cf"
  shows "(if Kubernetes cmdData
          then (\<exists>prefix. lf = kubernetesLockManagerFactoryFunc prefix \<and>
                         cf = kubernetesStagesStorageCacheFactoryFunc prefix)
          else (\<exists>lockDir cacheDir. lf = localLockManagerFactoryFunc sur lockDir \<and>
                         cf = localStagesStorageCacheFactoryFunc cacheDir)) \<and>
         (\<forall>clientID m. lf clientID = Inr m \<longrightarrow>
            lockManagerBackend m = (if Kubernetes cmdData then Cluster else LocalFiles)) \<and>
         (\<forall>clientID c. cf clientID = Inr c \<longrightarrow>
            stagesStorageCacheBackend c = (if Kubernetes cmdData then Cluster else LocalFiles))"
proof (cases "Kubernetes cmdData")
  case True
  with runSynchronization_cases[OF assms] show ?thesis
    by (auto simp: kubernetesLockManagerFactoryFunc_def kubernetesStagesStorageCacheFactoryFunc_def)
next
  case False
  with runSynchronization_cases[OF assms] show ?thesis
    by (auto simp: localLockManagerFactoryFunc_def localStagesStorageCacheFactoryFunc_def
             split: option.splits)
qed

theorem backend_selected_at_startup_witness:
  "runSynchronization quietSurroundings kubernetesCmdData =
     RunSynchronizationServer ''localhost'' ''55581''
       (kubernetesLockManagerFactoryFunc ''werf-synchronization-'')
       (kubernetesStagesStorageCacheFactoryFunc ''werf-synchronization-'') \<and>
   lockManagerBackend (NewKubernetesLockManager ''werf-synchronization-shop'') = Cluster \<and>
   runSynchronization quietSurroundings localCmdData =
     RunSynchronizationServer ''localhost'' ''55581''
       (localLockManagerFactoryFunc quietSurroundings ''/srv/locks'')
       (localStagesStorageCacheFactoryFunc ''/home/ci/.werf/synchronization_server/stages_storage_cache'') \<and>
   stagesStorageCacheBackend
     (NewFileStagesStorageCache ''/home/ci/.werf/synchronization_server/stages_storage_cache/shop'')
     = LocalFiles"
proof -
  have k: "kubernetesLockManagerFactoryFunc ''werf-synchronization-'' ''shop'' =
             Inr (NewKubernetesLockManager ''werf-synchronization-shop'')"
    by (simp add: kubernetesLockManagerFactoryFunc_def)
  have l: "localStagesStorageCacheFactoryFunc
             ''/home/ci/.werf/synchronization_server/stages_storage_cache'' ''shop'' =
           Inr (NewFileStagesStorageCache
             ''/home/ci/.werf/synchronization_server/stages_storage_cache/shop'')"
    by (simp add: localStagesStorageCacheFactoryFunc_def Join_def Clean_def)
  from backend_selected_at_startup[OF runSynchronization_quiet_kubernetes] k
  have "lockManagerBackend (NewKubernetesLockManager ''werf-synchronization-shop'') =
          (if Kubernetes kubernetesCmdData then Cluster else LocalFiles)"
    by blast
  moreover
  from backend_selected_at_startup[OF runSynchronization_quiet_local] l
  have "stagesStorageCacheBackend
          (NewFileStagesStorageCache ''/home/ci/.werf/synchronization_server/stages_storage_cache/shop'')
          = (if Kubernetes localCmdData then Cluster else LocalFiles)"
    by blast
  ultimately show ?thesis
    using runSynchronization_quiet_kubernetes runSynchronization_quiet_local
    by (simp add: kubernetesCmdData_def localCmdData_def)
qed

text \<open>
  C3. The claim is that the one TTL value is applied to the locks of the lock manager and
  to the records of the stages storage cache, as the help text of the flag says. The code
  does not do so: \<open>runSynchronization\<close> never reads the TTL, so its outcome, and with it the
  host, the port and the two factory functions handed to the server, is the same for
  every TTL.
\<close>

theorem ttl_is_not_used:
  "runSynchronization sur (cmdData\<lparr>TTL := ttl\<rparr>) = runSynchronization sur cmdData"
  by (simp add: runSynchronization_def Let_def split: option.splits)


text \<open>
  C4, as stated, fails: a supplied value is not always used. With the flag \<open>--host=\<close>
  (given, with the empty value) and \<open>WERF_HOST=example.org\<close>, the flag's empty value
  replaces the variable's and the server is bound to \<open>localhost\<close>.
\<close>

theorem listen_endpoint_supplied_host_dropped:
  "flag_host (noFlags\<lparr>flag_host := Some []\<rparr>) = Some [] \<and>
   [''WERF_HOST'' \<mapsto> ''example.org''] ''WERF_HOST'' = Some ''example.org'' \<and>
   runSynchronization quietSurroundings
      (NewCmd (\<lambda>name. True) (\<lambda>name. False) [''WERF_HOST'' \<mapsto> ''example.org'']
         (noFlags\<lparr>flag_host := Some []\<rparr>)) =
     RunSynchronizationServer ''localhost'' ''55581''
       (localLockManagerFactoryFunc quietSurroundings
          ''/home/ci/.werf/synchronization_server/lock_manager'')
       (localStagesStorageCacheFactoryFunc
          ''/home/ci/.werf/synchronization_server/stages_storage_cache'')"
  by (simp add: runSynchronization_def quietSurroundings_def NewCmd_def VarP_def noFlags_def
        Getenv_def Join_def Clean_def)

text \<open>
  C4, amended. The host the server is bound to is the value of the \<open>--host\<close> flag when the
  flag is given with a non-empty value, and the value of \<open>WERF_HOST\<close> when the flag is not
  given and the variable is set to a non-empty value. It is \<open>localhost\<close> in every other
  case: when neither is given, when the flag is given with the empty value (whatever the
  variable holds), and when the flag is not given and the variable is empty. The port
  follows the same rule with \<open>--port\<close>, \<open>WERF_PORT\<close> and \<open>55581\<close>, independently of the host.
\<close>

theorem listen_endpoint_defaults:
  assumes "runSynchronization sur (NewCmd dfltTrue dfltFalse environ args) =
             RunSynchronizationServer host port lf cf"
  shows "(flag_host args = None \<and> environ ''WERF_HOST'' = None \<longrightarrow> host = ''localhost'') \<and>
         (flag_port args = None \<and> environ ''WERF_PORT'' = None \<longrightarrow> port = ''55581'') \<and>
         (\<forall>v. v \<noteq> [] \<and> flag_host args = Some v \<longrightarrow> host = v) \<and>
         (\<forall>v. v \<noteq> [] \<and> flag_host args = None \<and> environ ''WERF_HOST'' = Some v \<longrightarrow> host = v) \<and>
         (\<forall>v. v \<noteq> [] \<and> flag_port args = Some v \<longrightarrow> port = v) \<and>
         (\<forall>v. v \<noteq> [] \<and> flag_port args = None \<and> environ ''WERF_PORT'' = Some v \<longrightarrow> port = v) \<and>
         (flag_host args = Some [] \<or> flag_host args = None \<and> environ ''WERF_HOST'' = Some [] \<longrightarrow>
            host = ''localhost'') \<and>
         (flag_port args = Some [] \<or> flag_port args = None \<and> environ ''WERF_PORT'' = Some [] \<longrightarrow>
            port = ''55581'')"
  using runSynchronization_cases[OF assms]
  by (simp add: NewCmd_def VarP_def Getenv_def)

theorem listen_endpoint_defaults_witness:
  "runSynchronization quietSurroundings
      (NewCmd (\<lambda>name. True) (\<lambda>name. False) Map.empty noFlags) =
     RunSynchronizationServer ''localhost'' ''55581''
       (localLockManagerFactoryFunc quietSurroundings
          ''/home/ci/.werf/synchronization_server/lock_manager'')
       (localStagesStorageCacheFactoryFunc
          ''/home/ci/.werf/synchronization_server/stages_storage_cache'') \<and>
   runSynchronization quietSurroundings
      (NewCmd (\<lambda>name. True) (\<lambda>name. False) [''WERF_PORT'' \<mapsto> ''8080'']
         (noFlags\<lparr>flag_host := Some ''0.0.0.0''\<rparr>)) =
     RunSynchronizationServer ''0.0.0.0'' ''8080''
       (localLockManagerFactoryFunc quietSurroundings
          ''/home/ci/.werf/synchronization_server/lock_manager'')
       (localStagesStorageCacheFactoryFunc
          ''/home/ci/.werf/synchronization_server/stages_storage_cache'')"
proof -
  let ?lf = "localLockManagerFactoryFunc quietSurroundings
               ''/home/ci/.werf/synchronization_server/lock_manager''"
  let ?cf = "localStagesStorageCacheFactoryFunc
               ''/home/ci/.werf/synchronization_server/stages_storage_cache''"
  let ?c1 = "NewCmd (\<lambda>name. True) (\<lambda>name. False) Map.empty noFlags"
  let ?c2 = "NewCmd (\<lambda>name. True) (\<lambda>name. False) [''WERF_PORT'' \<mapsto> ''8080'']
               (noFlags\<lparr>flag_host := Some ''0.0.0.0''\<rparr>)"
  obtain h1 p1 where r1:
    "runSynchronization quietSurroundings ?c1 = RunSynchronizationServer h1 p1 ?lf ?cf"
    by (simp add: runSynchronization_def quietSurroundings_def NewCmd_def VarP_def noFlags_def
          Getenv_def Join_def Clean_def)
  obtain h2 p2 where r2:
    "runSynchronization quietSurroundings ?c2 = RunSynchronizationServer h2 p2 ?lf ?cf"
    by (simp add: runSynchronization_def quietSurroundings_def NewCmd_def VarP_def noFlags_def
          Getenv_def Join_def Clean_def)
  from listen_endpoint_defaults[OF r1] have "h1 = ''localhost''" "p1 = ''55581''"
    by (simp_all add: noFlags_def)
  moreover from listen_endpoint_defaults[OF r2] have "h2 = ''0.0.0.0''" "p2 = ''8080''"
    by (simp_all add: noFlags_def)
  ultimately show ?thesis using r1 r2 by simp
qed

text \<open>
  C5. With the Kubernetes flag set, the lock manager and the stages storage cache of every
  client are both made for the namespace whose name is the prefix followed by the client
  identifier; the prefix is \<open>werf-synchronization-\<close> when none is configured.
\<close>

theorem kubernetes_namespace_is_prefix_and_client:
  assumes "Kubernetes cmdData"
    and "runSynchronization sur cmdData = RunSynchronizationServer host port lf cf"
  shows "lf clientID = Inr (NewKubernetesLockManager
           ((if KubernetesNamespacePrefix cmdData = [] then ''werf-synchronization-''
             else KubernetesNamespacePrefix cmdData) @ clientID)) \<and>
         cf clientID = Inr (NewKubernetesStagesStorageCache
           ((if KubernetesNamespacePrefix cmdData = [] then ''werf-synchronization-''
             else KubernetesNamespacePrefix cmdData) @ clientID))"
  using runSynchronization_cases[OF assms(2)] assms(1)
  by (simp add: kubernetesLockManagerFactoryFunc_def kubernetesStagesStorageCacheFactoryFunc_def)

theorem kubernetes_namespace_is_prefix_and_client_witness:
  "Kubernetes kubernetesCmdData \<and>
   runSynchronization quietSurroundings kubernetesCmdData =
     RunSynchronizationServer ''localhost'' ''55581''
       (kubernetesLockManagerFactoryFunc ''werf-synchronization-'')
       (kubernetesStagesStorageCacheFactoryFunc ''werf-synchronization-'') \<and>
   kubernetesLockManagerFactoryFunc ''werf-synchronization-'' ''shop'' =
     Inr (NewKubernetesLockManager ''werf-synchronization-shop'') \<and>
   kubernetesStagesStorageCacheFactoryFunc ''werf-synchronization-'' ''shop'' =
     Inr (NewKubernetesStagesStorageCache ''werf-synchronization-shop'')"
proof -
  have k: "Kubernetes kubernetesCmdData" by (simp add: kubernetesCmdData_def)
  from kubernetes_namespace_is_prefix_and_client[OF k runSynchronization_quiet_kubernetes, of "''shop''"]
  show ?thesis
    using k runSynchronization_quiet_kubernetes by (simp add: kubernetesCmdData_def)
qed

text \<open>
  C6, as stated, fails: the client identifier is joined to the base directory unchecked
  and the result is cleaned, so the directory need not be a subdirectory of the base. The
  identifier \<open>../../etc\<close> on the base \<open>/srv/locks\<close> gives \<open>/etc\<close>, the empty identifier
  gives the base directory itself, and \<open>..\<close> gives the parent of the base directory.
\<close>

theorem local_directory_outside_base:
  "runSynchronization quietSurroundings localCmdData =
     RunSynchronizationServer ''localhost'' ''55581''
       (localLockManagerFactoryFunc quietSurroundings ''/srv/locks'')
       (localStagesStorageCacheFactoryFunc ''/home/ci/.werf/synchronization_server/stages_storage_cache'') \<and>
   localLockManagerFactoryFunc quietSurroundings ''/srv/locks'' ''../../etc'' =
     Inr (NewGenericLockManager (NewFileLocker ''/etc'')) \<and>
   localLockManagerFactoryFunc quietSurroundings ''/srv/locks'' [] =
     Inr (NewGenericLockManager (NewFileLocker ''/srv/locks'')) \<and>
   localStagesStorageCacheFactoryFunc
       ''/home/ci/.werf/synchronization_server/stages_storage_cache'' ''..'' =
     Inr (NewFileStagesStorageCache ''/home/ci/.werf/synchronization_server'')"
  using runSynchronization_quiet_local
  by (simp add: localLockManagerFactoryFunc_def localStagesStorageCacheFactoryFunc_def
        quietSurroundings_def Join_def Clean_def)

text \<open>
  C6, amended. With the Kubernetes flag not set, the lock manager of every client works on
  the directory \<open>filepath.Join(lockManagerBaseDir, clientID)\<close>, provided the file locker can
  be made for it, and its stages storage cache on
  \<open>filepath.Join(stagesStorageCacheBaseDir, clientID)\<close>; this is the cleaned path
  \<open>baseDir/clientID\<close>. When the client identifier is a single path element (not empty, no
  separator, neither \<open>.\<close> nor \<open>..\<close>), the directory is the entry of that name in the
  cleaned base directory. A base directory that is not configured is
  \<open>synchronization_server/lock_manager\<close> and \<open>synchronization_server/stages_storage_cache\<close>
  under the werf home directory.
\<close>

theorem local_directories_are_base_and_client:
  assumes "Kubernetes cmdData = False"
    and "runSynchronization sur cmdData = RunSynchronizationServer host port lf cf"
    and "lockManagerBaseDir =
           (if LocalLockManagerBaseDir cmdData = []
            then Join [GetHomeDir sur, ''synchronization_server'', ''lock_manager'']
            else LocalLockManagerBaseDir cmdData)"
    and "stagesStorageCacheBaseDir =
           (if LocalStagesStorageCacheBaseDir cmdData = []
            then Join [GetHomeDir sur, ''synchronization_server'', ''stages_storage_cache'']
            else LocalStagesStorageCacheBaseDir cmdData)"
  shows "lf clientID =
           (case NewFileLocker_error sur (Join [lockManagerBaseDir, clientID]) of
              Some e \<Rightarrow> Inl e
            | None \<Rightarrow> Inr (NewGenericLockManager
                         (NewFileLocker (Join [lockManagerBaseDir, clientID])))) \<and>
         cf clientID =
           Inr (NewFileStagesStorageCache (Join [stagesStorageCacheBaseDir, clientID])) \<and>
         Join [lockManagerBaseDir, clientID] = Clean (lockManagerBaseDir @ ''/'' @ clientID) \<and>
         Join [stagesStorageCacheBaseDir, clientID] =
           Clean (stagesStorageCacheBaseDir @ ''/'' @ clientID) \<and>
         (isPathElement clientID \<longrightarrow>
            Join [lockManagerBaseDir, clientID] =
              subdirectory (Clean lockManagerBaseDir) clientID \<and>
            Join [stagesStorageCacheBaseDir, clientID] =
              subdirectory (Clean stagesStorageCacheBaseDir) clientID)"
proof -
  have ne: "lockManagerBaseDir \<noteq> []" "stagesStorageCacheBaseDir \<noteq> []"
    unfolding assms(3,4) by (rule local_base_dirs_nonempty)+
  have factories: "lf = localLockManagerFactoryFunc sur lockManagerBaseDir"
    "cf = localStagesStorageCacheFactoryFunc stagesStorageCacheBaseDir"
    using runSynchronization_cases[OF assms(2)] assms(1)
    unfolding assms(3,4)[symmetric] by simp_all
  have joined: "Join [lockManagerBaseDir, clientID] = Clean (lockManagerBaseDir @ ''/'' @ clientID)"
    "Join [stagesStorageCacheBaseDir, clientID] =
       Clean (stagesStorageCacheBaseDir @ ''/'' @ clientID)"
    using ne by (simp_all add: Join_two)
  have entry: "Join [lockManagerBaseDir, clientID] =
                 subdirectory (Clean lockManagerBaseDir) clientID \<and>
               Join [stagesStorageCacheBaseDir, clientID] =
                 subdirectory (Clean stagesStorageCacheBaseDir) clientID"
    if "isPathElement clientID"
    using ne that by (simp add: Join_two Clean_element_subdirectory)
  have "lf clientID =
           (case NewFileLocker_error sur (Join [lockManagerBaseDir, clientID]) of
              Some e \<Rightarrow> Inl e
            | None \<Rightarrow> Inr (NewGenericLockManager
                         (NewFileLocker (Join [lockManagerBaseDir, clientID]))))"
    "cf clientID = Inr (NewFileStagesStorageCache (Join [stagesStorageCacheBaseDir, clientID]))"
    unfolding factories
    by (simp_all add: localLockManagerFactoryFunc_def localStagesStorageCacheFactoryFunc_def)
  with joined entry show ?thesis by blast
qed

theorem local_directories_are_base_and_client_witness:
  "Kubernetes localCmdData = False \<and>
   runSynchronization quietSurroundings localCmdData =
     RunSynchronizationServer ''localhost'' ''55581''
       (localLockManagerFactoryFunc quietSurroundings ''/srv/locks'')
       (localStagesStorageCacheFactoryFunc ''/home/ci/.werf/synchronization_server/stages_storage_cache'') \<and>
   isPathElement ''shop'' \<and>
   localLockManagerFactoryFunc quietSurroundings ''/srv/locks'' ''shop'' =
     Inr (NewGenericLockManager (NewFileLocker ''/srv/locks/shop'')) \<and>
   localStagesStorageCacheFactoryFunc
       ''/home/ci/.werf/synchronization_server/stages_storage_cache'' ''shop'' =
     Inr (NewFileStagesStorageCache
       ''/home/ci/.werf/synchronization_server/stages_storage_cache/shop'') \<and>
   Join [''/srv/locks'', ''shop''] = subdirectory (Clean ''/srv/locks'') ''shop'' \<and>
   subdirectory (Clean ''/srv/locks'') ''shop'' = ''/srv/locks/shop''"
proof -
  have k: "Kubernetes localCmdData = False" by (simp add: localCmdData_def)
  have el: "isPathElement ''shop''" by (simp add: isPathElement_def)
  have b1: "''/srv/locks'' =
      (if LocalLockManagerBaseDir localCmdData = []
       then Join [GetHomeDir quietSurroundings, ''synchronization_server'', ''lock_manager'']
       else LocalLockManagerBaseDir localCmdData)"
    by (simp add: localCmdData_def)
  have b2: "''/home/ci/.werf/synchronization_server/stages_storage_cache'' =
      (if LocalStagesStorageCacheBaseDir localCmdData = []
       then Join [GetHomeDir quietSurroundings, ''synchronization_server'', ''stages_storage_cache'']
       else LocalStagesStorageCacheBaseDir localCmdData)"
    by (simp add: localCmdData_def quietSurroundings_def Join_def Clean_def)
  note t = local_directories_are_base_and_client[OF k runSynchronization_quiet_local b1 b2,
      of "''shop''"]
  from t el have 1: "Join [''/srv/locks'', ''shop''] = subdirectory (Clean ''/srv/locks'') ''shop''"
    by blast
  have 2: "subdirectory (Clean ''/srv/locks'') ''shop'' = ''/srv/locks/shop''"
    by (simp add: subdirectory_def Clean_def)
  from t 1 2
  have 3: "localLockManagerFactoryFunc quietSurroundings ''/srv/locks'' ''shop'' =
     Inr (NewGenericLockManager (NewFileLocker ''/srv/locks/shop''))"
    by (simp add: quietSurroundings_def)
  have 4: "localStagesStorageCacheFactoryFunc
       ''/home/ci/.werf/synchronization_server/stages_storage_cache'' ''shop'' =
     Inr (NewFileStagesStorageCache
       ''/home/ci/.werf/synchronization_server/stages_storage_cache/shop'')"
    by (simp add: localStagesStorageCacheFactoryFunc_def Join_def Clean_def)
  from k el runSynchronization_quiet_local 1 2 3 4 show ?thesis by blast
qed

text \<open>
  C1, as stated, fails for the local factories: \<open>filepath.Join\<close> cleans the path, so the
  distinct client identifiers \<open>shop\<close> and \<open>shop/\<close> are given the same lock directory
  and the same cache directory.
\<close>

theorem distinct_clients_share_local_directory:
  "''shop'' \<noteq> ''shop/'' \<and>
   runSynchronization quietSurroundings localCmdData =
     RunSynchronizationServer ''localhost'' ''55581''
       (localLockManagerFactoryFunc quietSurroundings ''/srv/locks'')
       (localStagesStorageCacheFactoryFunc ''/home/ci/.werf/synchronization_server/stages_storage_cache'') \<and>
   localLockManagerFactoryFunc quietSurroundings ''/srv/locks'' ''shop'' =
     Inr (NewGenericLockManager (NewFileLocker ''/srv/locks/shop'')) \<and>
   localLockManagerFactoryFunc quietSurroundings ''/srv/locks'' ''shop/'' =
     Inr (NewGenericLockManager (NewFileLocker ''/srv/locks/shop'')) \<and>
   localStagesStorageCacheFactoryFunc
       ''/home/ci/.werf/synchronization_server/stages_storage_cache'' ''shop'' =
     Inr (NewFileStagesStorageCache
       ''/home/ci/.werf/synchronization_server/stages_storage_cache/shop'') \<and>
   localStagesStorageCacheFactoryFunc
       ''/home/ci/.werf/synchronization_server/stages_storage_cache'' ''shop/'' =
     Inr (NewFileStagesStorageCache
       ''/home/ci/.werf/synchronization_server/stages_storage_cache/shop'')"
  using runSynchronization_quiet_local
  by (simp add: localLockManagerFactoryFunc_def localStagesStorageCacheFactoryFunc_def
        quietSurroundings_def Join_def Clean_def)

text \<open>
  C1, amended. Two distinct client identifiers are given distinct storage locations, for
  the lock manager and for the stages storage cache, under the cluster backend always
  (the namespace is the prefix followed by the identifier), and under the local backend
  when both identifiers are single path elements (not empty, no separator, neither
  \<open>.\<close> nor \<open>..\<close>), the directory then being the cleaned base directory followed by the
  identifier.
\<close>

theorem distinct_clients_distinct_locations:
  assumes "runSynchronization sur cmdData = RunSynchronizationServer host port lf cf"
    and "clientID1 \<noteq> clientID2"
    and "Kubernetes cmdData \<or> isPathElement clientID1 \<and> isPathElement clientID2"
    and "lf clientID1 = Inr m1" and "lf clientID2 = Inr m2"
    and "cf clientID1 = Inr c1" and "cf clientID2 = Inr c2"
  shows "lockManagerLocation m1 \<noteq> lockManagerLocation m2 \<and>
         stagesStorageCacheLocation c1 \<noteq> stagesStorageCacheLocation c2"
proof (cases "Kubernetes cmdData")
  case True
  with runSynchronization_cases[OF assms(1)] assms(2,4-7) show ?thesis
    by (auto simp: kubernetesLockManagerFactoryFunc_def kubernetesStagesStorageCacheFactoryFunc_def)
next
  case False
  with assms(3) have el: "isPathElement clientID1" "isPathElement clientID2" by simp_all
  obtain lockDir cacheDir where
    lf: "lf = localLockManagerFactoryFunc sur lockDir" and
    cf: "cf = localStagesStorageCacheFactoryFunc cacheDir" and
    ne: "lockDir \<noteq> []" "cacheDir \<noteq> []"
    using runSynchronization_cases[OF assms(1)] False local_base_dirs_nonempty by auto
  have "m1 = NewGenericLockManager (NewFileLocker (Join [lockDir, clientID1]))"
       "m2 = NewGenericLockManager (NewFileLocker (Join [lockDir, clientID2]))"
    using assms(4,5) unfolding lf localLockManagerFactoryFunc_def
    by (auto split: option.splits)
  moreover have "c1 = NewFileStagesStorageCache (Join [cacheDir, clientID1])"
       "c2 = NewFileStagesStorageCache (Join [cacheDir, clientID2])"
    using assms(6,7) unfolding cf localStagesStorageCacheFactoryFunc_def by auto
  ultimately show ?thesis
    using Join_element_inj[OF ne(1) el] Join_element_inj[OF ne(2) el] assms(2) by auto
qed

theorem distinct_clients_distinct_locations_witness:
  "runSynchronization quietSurroundings kubernetesCmdData =
     RunSynchronizationServer ''localhost'' ''55581''
       (kubernetesLockManagerFactoryFunc ''werf-synchronization-'')
       (kubernetesStagesStorageCacheFactoryFunc ''werf-synchronization-'') \<and>
   ''shop'' \<noteq> ''shop/'' \<and> Kubernetes kubernetesCmdData \<and>
   lockManagerLocation (NewKubernetesLockManager ''werf-synchronization-shop'') \<noteq>
     lockManagerLocation (NewKubernetesLockManager ''werf-synchronization-shop/'') \<and>
   runSynchronization quietSurroundings localCmdData =
     RunSynchronizationServer ''localhost'' ''55581''
       (localLockManagerFactoryFunc quietSurroundings ''/srv/locks'')
       (localStagesStorageCacheFactoryFunc ''/home/ci/.werf/synchronization_server/stages_storage_cache'') \<and>
   ''shop'' \<noteq> ''blog'' \<and> isPathElement ''shop'' \<and> isPathElement ''blog'' \<and>
   lockManagerLocation (NewGenericLockManager (NewFileLocker ''/srv/locks/shop'')) \<noteq>
     lockManagerLocation (NewGenericLockManager (NewFileLocker ''/srv/locks/blog'')) \<and>
   stagesStorageCacheLocation (NewFileStagesStorageCache
       ''/home/ci/.werf/synchronization_server/stages_storage_cache/shop'') \<noteq>
     stagesStorageCacheLocation (NewFileStagesStorageCache
       ''/home/ci/.werf/synchronization_server/stages_storage_cache/blog'')"
proof -
  have k: "Kubernetes kubernetesCmdData \<or> isPathElement ''shop'' \<and> isPathElement ''shop/''"
    by (simp add: kubernetesCmdData_def)
  have d1: "''shop'' \<noteq> ''shop/''" by simp
  have a: "lockManagerLocation (NewKubernetesLockManager ''werf-synchronization-shop'') \<noteq>
     lockManagerLocation (NewKubernetesLockManager ''werf-synchronization-shop/'')"
    using distinct_clients_distinct_locations[OF runSynchronization_quiet_kubernetes d1 k,
        of "NewKubernetesLockManager ''werf-synchronization-shop''"
           "NewKubernetesLockManager ''werf-synchronization-shop/''"
           "NewKubernetesStagesStorageCache ''werf-synchronization-shop''"
           "NewKubernetesStagesStorageCache ''werf-synchronization-shop/''"]
    by (simp add: kubernetesLockManagerFactoryFunc_def kubernetesStagesStorageCacheFactoryFunc_def)
  have el: "isPathElement ''shop''" "isPathElement ''blog''"
    by (simp_all add: isPathElement_def)
  then have l: "Kubernetes localCmdData \<or> isPathElement ''shop'' \<and> isPathElement ''blog''"
    by simp
  have d2: "''shop'' \<noteq> ''blog''" by simp
  have b: "lockManagerLocation (NewGenericLockManager (NewFileLocker ''/srv/locks/shop'')) \<noteq>
     lockManagerLocation (NewGenericLockManager (NewFileLocker ''/srv/locks/blog'')) \<and>
   stagesStorageCacheLocation (NewFileStagesStorageCache
       ''/home/ci/.werf/synchronization_server/stages_storage_cache/shop'') \<noteq>
     stagesStorageCacheLocation (NewFileStagesStorageCache
       ''/home/ci/.werf/synchronization_server/stages_storage_cache/blog'')"
    using distinct_clients_distinct_locations[OF runSynchronization_quiet_local d2 l,
        of "NewGenericLockManager (NewFileLocker ''/srv/locks/shop'')"
           "NewGenericLockManager (NewFileLocker ''/srv/locks/blog'')"
           "NewFileStagesStorageCache ''/home/ci/.werf/synchronization_server/stages_storage_cache/shop''"
           "NewFileStagesStorageCache ''/home/ci/.werf/synchronization_server/stages_storage_cache/blog''"]
    by (simp add: localLockManagerFactoryFunc_def localStagesStorageCacheFactoryFunc_def
          quietSurroundings_def Join_def Clean_def)
  show ?thesis
    using a b el runSynchronization_quiet_kubernetes runSynchronization_quiet_local
    by (simp add: kubernetesCmdData_def)
qed

section \<open>Properties of the buildah backend\<close>

subsection \<open>GetImageInfo\<close>

text \<open>
  C7, as stated, fails: the inspect may find the reference and carry no configuration (a
  nil \<open>Config\<close> pointer); the code then dereferences nil and panics instead of returning
  a descriptor.
\<close>

theorem GetImageInfo_panics_without_config:
  "sampleInspect ''repo:bare'' =
     (Some \<lparr> Docker = \<lparr> Docker_Config = None, Docker_Created = Time 1600000000 5,
                         Docker_ID = ''sha256:bare'', Docker_Size = 0 \<rparr> \<rparr>, None) \<and>
   GetImageInfo sampleInspect sampleParseRepositoryAndTag ''repo:bare'' = NilPointerDereference"
  by (simp add: sampleInspect_def GetImageInfo_def sampleParseRepositoryAndTag_def)

text \<open>
  C7, amended. \<open>GetImageInfo\<close> returns nil with a nil error exactly when the inspect
  reports the reference absent (nil, without error); when the inspect finds the reference
  and the result carries a configuration, it returns a descriptor with the reference's
  labels, creation time, parent identifier and size, and no error; and it returns an
  error exactly when the inspect fails, with no descriptor.
\<close>

theorem GetImageInfo_outcomes:
  "(GetImageInfo Inspect ParseRepositoryAndTag ref = ReturnInfo None None) =
     (Inspect ref = (None, None)) \<and>
   (\<forall>inspect config.
      Inspect ref = (Some inspect, None) \<and> Docker_Config (Docker inspect) = Some config \<longrightarrow>
      (\<exists>info. GetImageInfo Inspect ParseRepositoryAndTag ref = ReturnInfo (Some info) None \<and>
         Name info = ref \<and>
         Info_Labels info = Config_Labels config \<and>
         CreatedAtUnixNano info = UnixNano (Docker_Created (Docker inspect)) \<and>
         ParentID info = Config_Image config \<and>
         Size info = Docker_Size (Docker inspect))) \<and>
   (\<exists>e. GetImageInfo Inspect ParseRepositoryAndTag ref = ReturnInfo None (Some e)) =
     (snd (Inspect ref) \<noteq> None) \<and>
   (\<forall>info e. GetImageInfo Inspect ParseRepositoryAndTag ref = ReturnInfo info (Some e) \<longrightarrow>
      info = None)"
  by (auto simp: GetImageInfo_def split: prod.splits option.splits)

theorem GetImageInfo_outcomes_witness:
  "sampleInspect ''repo:none'' = (None, None) \<and>
   GetImageInfo sampleInspect sampleParseRepositoryAndTag ''repo:none'' = ReturnInfo None None \<and>
   snd (sampleInspect ''repo:broken'') \<noteq> None \<and>
   GetImageInfo sampleInspect sampleParseRepositoryAndTag ''repo:broken'' =
     ReturnInfo None (Some (ErrorGettingInspect ''repo:broken'' (Err ''storage is locked''))) \<and>
   (\<exists>info. GetImageInfo sampleInspect sampleParseRepositoryAndTag ''repo:v1'' =
        ReturnInfo (Some info) None \<and>
      Info_Labels info ''werf'' = Some ''shop'' \<and>
      CreatedAtUnixNano info = 1600000000000000005 \<and>
      ParentID info = ''sha256:parent'' \<and>
      Size info = 4096)"
proof -
  let ?config = "\<lparr> Config_Labels = [''werf'' \<mapsto> ''shop''], Config_OnBuild = [],
                   Config_Image = ''sha256:parent'' \<rparr>"
  let ?inspect = "\<lparr> Docker = \<lparr> Docker_Config = Some ?config,
                                Docker_Created = Time 1600000000 5,
                                Docker_ID = ''sha256:image'',
                                Docker_Size = 4096 \<rparr> \<rparr>"
  have a: "sampleInspect ''repo:none'' = (None, None)"
    by (simp add: sampleInspect_def)
  have b: "snd (sampleInspect ''repo:broken'') \<noteq> None"
    by (simp add: sampleInspect_def)
  have c: "sampleInspect ''repo:v1'' = (Some ?inspect, None) \<and>
           Docker_Config (Docker ?inspect) = Some ?config"
    by (simp add: sampleInspect_def)
  note t1 = GetImageInfo_outcomes[of sampleInspect sampleParseRepositoryAndTag "''repo:none''"]
  note t2 = GetImageInfo_outcomes[of sampleInspect sampleParseRepositoryAndTag "''repo:broken''"]
  note t3 = GetImageInfo_outcomes[of sampleInspect sampleParseRepositoryAndTag "''repo:v1''"]
  from t1 a
  have 1: "GetImageInfo sampleInspect sampleParseRepositoryAndTag ''repo:none'' = ReturnInfo None None"
    by blast
  from t2 b
  have "\<exists>e. GetImageInfo sampleInspect sampleParseRepositoryAndTag ''repo:broken'' =
          ReturnInfo None (Some e)"
    by blast
  then have 2: "GetImageInfo sampleInspect sampleParseRepositoryAndTag ''repo:broken'' =
     ReturnInfo None (Some (ErrorGettingInspect ''repo:broken'' (Err ''storage is locked'')))"
    by (simp add: GetImageInfo_def sampleInspect_def)
  from t3 c
  have "\<exists>info. GetImageInfo sampleInspect sampleParseRepositoryAndTag ''repo:v1'' =
          ReturnInfo (Some info) None \<and>
        Info_Labels info = Config_Labels ?config \<and>
        CreatedAtUnixNano info = UnixNano (Docker_Created (Docker ?inspect)) \<and>
        ParentID info = Config_Image ?config \<and>
        Size info = Docker_Size (Docker ?inspect)"
    by blast
  then have 3: "\<exists>info. GetImageInfo sampleInspect sampleParseRepositoryAndTag ''repo:v1'' =
        ReturnInfo (Some info) None \<and>
      Info_Labels info ''werf'' = Some ''shop'' \<and>
      CreatedAtUnixNano info = 1600000000000000005 \<and>
      ParentID info = ''sha256:parent'' \<and>
      Size info = 4096"
    by (auto simp: UnixNano_def)
  from a b 1 2 3 show ?thesis by blast
qed

subsection \<open>BuildDockerfile\<close>

lemma SplitN_2:
  "SplitN s sep 2 =
     (if sep \<in> set s then [takeWhile (\<lambda>c. c \<noteq> sep) s, tl (dropWhile (\<lambda>c. c \<noteq> sep) s)] else [s])"
  by (simp add: numeral_2_eq_2)

lemma parseBuildArgs_all_split:
  "\<forall>arg \<in> set args. CHR ''='' \<in> set arg \<Longrightarrow>
     parseBuildArgs m args =
       Inr (m ++ map_of (rev (map (\<lambda>arg. (takeWhile (\<lambda>c. c \<noteq> CHR ''='') arg,
                                          tl (dropWhile (\<lambda>c. c \<noteq> CHR ''='') arg))) args)))"
proof (induction args arbitrary: m)
  case Nil
  then show ?case by simp
next
  case (Cons a args)
  then show ?case by (simp add: SplitN_2)
qed

lemma parseBuildArgs_some_unsplit:
  "\<exists>arg \<in> set args. CHR ''='' \<notin> set arg \<Longrightarrow> \<exists>arg. parseBuildArgs m args = Inl (InvalidBuildArgument arg) \<and> arg \<in> set args \<and> CHR ''='' \<notin> set arg"
proof (induction args arbitrary: m)
  case Nil
  then show ?case by simp
next
  case (Cons a args)
  show ?case
  proof (cases "CHR ''='' \<in> set a")
    case True
    with Cons.prems have "\<exists>arg \<in> set args. CHR ''='' \<notin> set arg" by auto
    from Cons.IH[OF this] True show ?thesis by (auto simp: SplitN_2)
  next
    case False
    then show ?thesis by (simp add: SplitN_2)
  qed
qed

text \<open>
  C10. When some build argument has no equals sign, \<open>BuildDockerfile\<close> returns an error
  (for such an argument) and makes no call on the build engine. Otherwise it calls the
  engine's build once, with the map in which every argument's text before its first equals
  sign is the key and the text after it the value (a later argument overriding an earlier
  one with the same key), and returns what the engine returns.
\<close>

theorem BuildDockerfile_build_args:
  "((\<exists>arg \<in> set (BuildArgs opts). CHR ''='' \<notin> set arg) \<longrightarrow>
      (\<exists>arg. BuildDockerfile eng h dockerfile opts = (([], Some (InvalidBuildArgument arg)), h) \<and>
             arg \<in> set (BuildArgs opts) \<and> CHR ''='' \<notin> set arg)) \<and>
   ((\<forall>arg \<in> set (BuildArgs opts). CHR ''='' \<in> set arg) \<longrightarrow>
      (\<exists>buildArgs c.
         buildArgs = map_of (rev (map (\<lambda>arg. (takeWhile (\<lambda>c. c \<noteq> CHR ''='') arg,
                                               tl (dropWhile (\<lambda>c. c \<noteq> CHR ''='') arg)))
                                     (BuildArgs opts))) \<and>
         c = BuildFromDockerfile dockerfile \<lparr> LogWriter = True \<rparr> (ContextTar opts) buildArgs (Target opts) \<and>
         BuildDockerfile eng h dockerfile opts = ((ret (eng h c), err (eng h c)), h @ [(c, eng h c)])))"
proof (intro conjI impI)
  assume "\<exists>arg \<in> set (BuildArgs opts). CHR ''='' \<notin> set arg"
  from parseBuildArgs_some_unsplit[OF this, of Map.empty]
  show "\<exists>arg. BuildDockerfile eng h dockerfile opts = (([], Some (InvalidBuildArgument arg)), h) \<and>
             arg \<in> set (BuildArgs opts) \<and> CHR ''='' \<notin> set arg"
    by (auto simp: BuildDockerfile_def)
next
  assume "\<forall>arg \<in> set (BuildArgs opts). CHR ''='' \<in> set arg"
  from parseBuildArgs_all_split[OF this, of Map.empty]
  show "\<exists>buildArgs c.
         buildArgs = map_of (rev (map (\<lambda>arg. (takeWhile (\<lambda>c. c \<noteq> CHR ''='') arg,
                                               tl (dropWhile (\<lambda>c. c \<noteq> CHR ''='') arg)))
                                     (BuildArgs opts))) \<and>
         c = BuildFromDockerfile dockerfile \<lparr> LogWriter = True \<rparr> (ContextTar opts) buildArgs (Target opts) \<and>
         BuildDockerfile eng h dockerfile opts = ((ret (eng h c), err (eng h c)), h @ [(c, eng h c)])"
    by (simp add: BuildDockerfile_def invoke_def)
qed

theorem BuildDockerfile_build_args_witness:
  "BuildDockerfile sampleEngine [] ''FROM alpine''
      \<lparr> ContextTar = ''ctx.tar'', BuildArgs = [''A=1'', ''NOVALUE''], Target = [] \<rparr> =
     (([], Some (InvalidBuildArgument ''NOVALUE'')), []) \<and>
   fst (BuildDockerfile sampleEngine [] ''FROM alpine''
      \<lparr> ContextTar = ''ctx.tar'', BuildArgs = [''A=1'', ''B=x=y'', ''A=2''], Target = [] \<rparr>) =
     (''sha256:built'', None) \<and>
   map fst (snd (BuildDockerfile sampleEngine [] ''FROM alpine''
      \<lparr> ContextTar = ''ctx.tar'', BuildArgs = [''A=1'', ''B=x=y'', ''A=2''], Target = [] \<rparr>)) =
     [BuildFromDockerfile ''FROM alpine'' \<lparr> LogWriter = True \<rparr> ''ctx.tar''
        (map_of [(''A'', ''2''), (''B'', ''x=y''), (''A'', ''1'')]) []]"
proof -
  let ?bad = "\<lparr> ContextTar = ''ctx.tar'', BuildArgs = [''A=1'', ''NOVALUE''], Target = [] \<rparr>"
  let ?good = "\<lparr> ContextTar = ''ctx.tar'', BuildArgs = [''A=1'', ''B=x=y'', ''A=2''], Target = [] \<rparr>"
  have b: "\<exists>arg \<in> set (BuildArgs ?bad). CHR ''='' \<notin> set arg" by simp
  have g: "\<forall>arg \<in> set (BuildArgs ?good). CHR ''='' \<in> set arg" by simp
  from BuildDockerfile_build_args[of ?bad sampleEngine "[]" "''FROM alpine''"] b
  have 1: "BuildDockerfile sampleEngine [] ''FROM alpine'' ?bad =
             (([], Some (InvalidBuildArgument ''NOVALUE'')), [])"
    by auto
  from BuildDockerfile_build_args[of ?good sampleEngine "[]" "''FROM alpine''"] g
  have 2: "fst (BuildDockerfile sampleEngine [] ''FROM alpine'' ?good) = (''sha256:built'', None)"
    "map fst (snd (BuildDockerfile sampleEngine [] ''FROM alpine'' ?good)) =
     [BuildFromDockerfile ''FROM alpine'' \<lparr> LogWriter = True \<rparr> ''ctx.tar''
        (map_of [(''A'', ''2''), (''B'', ''x=y''), (''A'', ''1'')]) []]"
    by (auto simp: sampleEngine_def)
  from 1 2 show ?thesis by simp
qed

subsection \<open>BuildStapelStage\<close>

lemma stepsOK_simps [simp]:
  "stepsOK []"
  "stepsOK (ev # evs) = (\<not> failedStep ev \<and> stepsOK evs)"
  "stepsOK (xs @ ys) = (stepsOK xs \<and> stepsOK ys)"
  by (simp_all add: stepsOK_def)

lemma onlyUmount_simps [simp]:
  "onlyUmount []"
  "onlyUmount (ev # evs) = (isUmount (fst ev) \<and> onlyUmount evs)"
  by (simp_all add: onlyUmount_def)

lemma buildMounts_find:
  "buildMounts mounts volumes =
     (case find (\<lambda>v. CHR '':'' \<notin> set v) volumes of
        Some v \<Rightarrow> Inl (InvalidVolume v)
      | None \<Rightarrow> Inr (mounts @ map bindMount volumes))"
  by (induction volumes arbitrary: mounts)
    (simp_all add: SplitN_2 bindMount_def split: option.splits)

text \<open>The loop over the prepare-container actions.\<close>

lemma prepareContainerLoop_None:
  "prepareContainerLoop eng h root actions = (None, h') \<Longrightarrow>
     \<exists>evs. h' = h @ evs \<and> stepsOK evs \<and>
           map fst evs = map (\<lambda>a. PrepareContainer a root) actions"
proof (induction actions arbitrary: h)
  case Nil
  then show ?case by simp
next
  case (Cons a actions)
  let ?c = "PrepareContainer a root"
  from Cons.prems have ok: "err (eng h ?c) = None"
    and rest: "prepareContainerLoop eng (h @ [(?c, eng h ?c)]) root actions = (None, h')"
    by (auto simp: invoke_def split: option.splits)
  from Cons.IH[OF rest] obtain evs where
    "h' = (h @ [(?c, eng h ?c)]) @ evs" "stepsOK evs"
    "map fst evs = map (\<lambda>a. PrepareContainer a root) actions"
    by blast
  with ok have "h' = h @ ((?c, eng h ?c) # evs) \<and> stepsOK ((?c, eng h ?c) # evs) \<and>
      map fst ((?c, eng h ?c) # evs) = map (\<lambda>a. PrepareContainer a root) (a # actions)"
    by (simp add: failedStep_def)
  then show ?case by blast
qed

lemma prepareContainerLoop_Some:
  "prepareContainerLoop eng h root actions = (Some e, h') \<Longrightarrow>
     \<exists>pre ev. h' = h @ pre @ [ev] \<and> stepsOK pre \<and> failedStep ev"
proof (induction actions arbitrary: h)
  case Nil
  then show ?case by simp
next
  case (Cons a actions)
  let ?c = "PrepareContainer a root"
  show ?case
  proof (cases "err (eng h ?c)")
    case None
    with Cons.prems
    have rest: "prepareContainerLoop eng (h @ [(?c, eng h ?c)]) root actions = (Some e, h')"
      by (simp add: invoke_def)
    from Cons.IH[OF rest] obtain pre ev where
      "h' = (h @ [(?c, eng h ?c)]) @ pre @ [ev]" "stepsOK pre" "failedStep ev"
      by blast
    with None have "h' = h @ ((?c, eng h ?c) # pre) @ [ev] \<and> stepsOK ((?c, eng h ?c) # pre) \<and>
        failedStep ev"
      by (simp add: failedStep_def)
    then show ?thesis by blast
  next
    case (Some e')
    with Cons.prems have "h' = h @ [] @ [(?c, eng h ?c)]"
      by (simp add: invoke_def)
    moreover have "failedStep (?c, eng h ?c)" using Some by (simp add: failedStep_def)
    ultimately show ?thesis by (metis stepsOK_simps(1))
  qed
qed


text \<open>The guarded block around the prepare-container actions.\<close>

lemma prepareContainer_None:
  assumes "prepareContainer eng h containerID actions = (None, h')"
  shows "\<exists>evs root. h' = h @ evs \<and> stepsOK evs \<and>
           map fst evs =
             (if actions = [] then []
              else MountContainer containerID (getBuildahCommonOpts True)
                   # map (\<lambda>a. PrepareContainer a root) actions
                   @ [Umount root (getBuildahCommonOpts True)])"
proof (cases "actions = []")
  case True
  with assms have "h' = h @ []" by (simp add: prepareContainer_def)
  with True show ?thesis by (metis stepsOK_simps(1) list.simps(8))
next
  case False
  let ?m = "MountContainer containerID (getBuildahCommonOpts True)"
  let ?h1 = "h @ [(?m, eng h ?m)]"
  let ?root = "ret (eng h ?m)"
  let ?u = "Umount ?root (getBuildahCommonOpts True)"
  from assms False have ok: "err (eng h ?m) = None"
    by (auto simp: prepareContainer_def invoke_def split: option.splits prod.splits)
  with assms False obtain h2 where
    loop: "prepareContainerLoop eng ?h1 ?root actions = (None, h2)" and
    h': "h' = h2 @ [(?u, eng h2 ?u)]"
    by (auto simp: prepareContainer_def invoke_def split: prod.splits)
  from prepareContainerLoop_None[OF loop] obtain evs where
    evs: "h2 = ?h1 @ evs" "stepsOK evs" "map fst evs = map (\<lambda>a. PrepareContainer a ?root) actions"
    by blast
  let ?all = "(?m, eng h ?m) # evs @ [(?u, eng h2 ?u)]"
  have "h' = h @ ?all" using h' evs(1) by simp
  moreover have "stepsOK ?all" using ok evs(2) by (simp add: failedStep_def)
  moreover have "map fst ?all = ?m # map (\<lambda>a. PrepareContainer a ?root) actions @ [?u]"
    using evs(3) by simp
  ultimately show ?thesis using False by metis
qed

lemma prepareContainer_Some:
  assumes "prepareContainer eng h containerID actions = (Some e, h')"
  shows "\<exists>pre ev post. h' = h @ pre @ ev # post \<and> stepsOK pre \<and> failedStep ev \<and> onlyUmount post"
proof -
  let ?m = "MountContainer containerID (getBuildahCommonOpts True)"
  let ?h1 = "h @ [(?m, eng h ?m)]"
  let ?root = "ret (eng h ?m)"
  let ?u = "Umount ?root (getBuildahCommonOpts True)"
  from assms have ne: "actions \<noteq> []"
    by (auto simp: prepareContainer_def)
  show ?thesis
  proof (cases "err (eng h ?m)")
    case (Some e')
    with assms ne have "h' = h @ [] @ (?m, eng h ?m) # []"
      by (simp add: prepareContainer_def invoke_def)
    moreover have "failedStep (?m, eng h ?m)" using Some by (simp add: failedStep_def)
    ultimately show ?thesis by (metis stepsOK_simps(1) onlyUmount_simps(1))
  next
    case None
    with assms ne obtain h2 where
      loop: "prepareContainerLoop eng ?h1 ?root actions = (Some e, h2)" and
      h': "h' = h2 @ [(?u, eng h2 ?u)]"
      by (auto simp: prepareContainer_def invoke_def split: prod.splits)
    from prepareContainerLoop_Some[OF loop] obtain pre ev where
      pre: "h2 = ?h1 @ pre @ [ev]" "stepsOK pre" "failedStep ev"
      by blast
    have "h' = h @ ((?m, eng h ?m) # pre) @ ev # [(?u, eng h2 ?u)]"
      using h' pre(1) by simp
    moreover have "stepsOK ((?m, eng h ?m) # pre)"
      using None pre(2) by (simp add: failedStep_def)
    moreover have "onlyUmount [(?u, eng h2 ?u)]" by simp
    ultimately show ?thesis using pre(3) by blast
  qed
qed

text \<open>The loop over the user commands.\<close>

lemma runUserCommands_None:
  "runUserCommands eng h containerID volumes cmds = (None, h') \<Longrightarrow>
     \<exists>evs. h' = h @ evs \<and> stepsOK evs \<and>
       map fst evs =
         map (\<lambda>cmd. RunCommand containerID [''sh'', ''-c'', cmd] (getBuildahCommonOpts False)
                      (map bindMount volumes)) cmds"
proof (induction cmds arbitrary: h)
  case Nil
  then show ?case by simp
next
  case (Cons cmd cmds)
  let ?c = "RunCommand containerID [''sh'', ''-c'', cmd] (getBuildahCommonOpts False)
              (map bindMount volumes)"
  from Cons.prems have m: "buildMounts [] volumes = Inr (map bindMount volumes)"
    by (auto simp: buildMounts_find split: option.splits)
  with Cons.prems have ok: "err (eng h ?c) = None"
    and rest: "runUserCommands eng (h @ [(?c, eng h ?c)]) containerID volumes cmds = (None, h')"
    by (auto simp: invoke_def split: option.splits)
  from Cons.IH[OF rest] obtain evs where
    "h' = (h @ [(?c, eng h ?c)]) @ evs" "stepsOK evs"
    "map fst evs = map (\<lambda>cmd. RunCommand containerID [''sh'', ''-c'', cmd]
        (getBuildahCommonOpts False) (map bindMount volumes)) cmds"
    by blast
  with ok have "h' = h @ ((?c, eng h ?c) # evs) \<and> stepsOK ((?c, eng h ?c) # evs) \<and>
      map fst ((?c, eng h ?c) # evs) = map (\<lambda>cmd. RunCommand containerID [''sh'', ''-c'', cmd]
        (getBuildahCommonOpts False) (map bindMount volumes)) (cmd # cmds)"
    by (simp add: failedStep_def)
  then show ?case by blast
qed

lemma runUserCommands_Some:
  "runUserCommands eng h containerID volumes cmds = (Some res, h') \<Longrightarrow>
     (\<exists>v. res = Panic (InvalidVolume v) \<and> find (\<lambda>v. CHR '':'' \<notin> set v) volumes = Some v \<and>
          h' = h) \<or>
     (\<exists>e pre ev. res = Return [] (Some e) \<and> h' = h @ pre @ [ev] \<and> stepsOK pre \<and> failedStep ev)"
proof (induction cmds arbitrary: h)
  case Nil
  then show ?case by simp
next
  case (Cons cmd cmds)
  show ?case
  proof (cases "find (\<lambda>v. CHR '':'' \<notin> set v) volumes")
    case (Some v)
    with Cons.prems show ?thesis by (simp add: buildMounts_find)
  next
    case None
    let ?c = "RunCommand containerID [''sh'', ''-c'', cmd] (getBuildahCommonOpts False)
                (map bindMount volumes)"
    have m: "buildMounts [] volumes = Inr (map bindMount volumes)"
      using None by (simp add: buildMounts_find)
    show ?thesis
    proof (cases "err (eng h ?c)")
      case (Some e')
      with Cons.prems m have "res = Return [] (Some (UnableToRun cmd e'))"
        "h' = h @ [] @ [(?c, eng h ?c)]"
        by (simp_all add: invoke_def)
      moreover have "failedStep (?c, eng h ?c)" using Some by (simp add: failedStep_def)
      ultimately show ?thesis by (metis stepsOK_simps(1))
    next
      case None': None
      with Cons.prems m
      have rest: "runUserCommands eng (h @ [(?c, eng h ?c)]) containerID volumes cmds = (Some res, h')"
        by (simp add: invoke_def)
      from Cons.IH[OF rest] None
      obtain e pre ev where
        "res = Return [] (Some e)" "h' = (h @ [(?c, eng h ?c)]) @ pre @ [ev]"
        "stepsOK pre" "failedStep ev"
        by auto
      with None' have "res = Return [] (Some e) \<and> h' = h @ ((?c, eng h ?c) # pre) @ [ev] \<and>
          stepsOK ((?c, eng h ?c) # pre) \<and> failedStep ev"
        by (simp add: failedStep_def)
      then show ?thesis by blast
    qed
  qed
qed


text \<open>The last two steps.\<close>

lemma configAndCommit_shape:
  assumes "configAndCommit eng h containerID labels = (res, h')"
  shows "(\<exists>r1 r2. res = Return (ret r2) None \<and>
            h' = h @ [(Config containerID (getBuildahCommonOpts True) labels, r1),
                      (Commit containerID (getBuildahCommonOpts True), r2)] \<and>
            err r1 = None \<and> err r2 = None) \<or>
         (\<exists>e pre ev. res = Return [] (Some e) \<and> h' = h @ pre @ [ev] \<and> stepsOK pre \<and> failedStep ev)"
proof -
  let ?c1 = "Config containerID (getBuildahCommonOpts True) labels"
  let ?h1 = "h @ [(?c1, eng h ?c1)]"
  let ?c2 = "Commit containerID (getBuildahCommonOpts True)"
  show ?thesis
  proof (cases "err (eng h ?c1)")
    case (Some e)
    with assms have "res = Return [] (Some (UnableToSetConfig containerID e))"
      "h' = h @ [] @ [(?c1, eng h ?c1)]"
      by (simp_all add: configAndCommit_def invoke_def)
    moreover have "failedStep (?c1, eng h ?c1)" using Some by (simp add: failedStep_def)
    ultimately show ?thesis by (metis stepsOK_simps(1))
  next
    case None
    show ?thesis
    proof (cases "err (eng ?h1 ?c2)")
      case (Some e)
      with None assms have "res = Return [] (Some (UnableToCommit containerID e))"
        "h' = h @ [(?c1, eng h ?c1)] @ [(?c2, eng ?h1 ?c2)]"
        by (simp_all add: configAndCommit_def invoke_def)
      moreover have "failedStep (?c2, eng ?h1 ?c2)" using Some by (simp add: failedStep_def)
      moreover have "stepsOK [(?c1, eng h ?c1)]" using None by (simp add: failedStep_def)
      ultimately show ?thesis by blast
    next
      case None': None
      with None assms have "res = Return (ret (eng ?h1 ?c2)) None"
        "h' = h @ [(?c1, eng h ?c1), (?c2, eng ?h1 ?c2)]"
        by (simp_all add: configAndCommit_def invoke_def)
      with None None' show ?thesis by blast
    qed
  qed
qed

lemma BuildStapelStage_shape:
  assumes "BuildStapelStage eng h uuid baseImage opts = (res, h')"
  shows "\<exists>evs. h' = h @ evs \<and>
     ((\<exists>root. res = Return (ret (snd (last evs))) None \<and> stepsOK evs \<and>
            map fst evs = stagePlan (''werf-stage-build-'' @ uuid) baseImage root opts) \<or>
      (\<exists>v. res = Panic (InvalidVolume v) \<and> stepsOK evs) \<or>
      (\<exists>e pre ev post. res = Return [] (Some e) \<and> evs = pre @ ev # post \<and> stepsOK pre \<and>
            failedStep ev \<and> onlyUmount post))"
proof -
  let ?cid = "''werf-stage-build-'' @ uuid"
  let ?c0 = "FromCommand ?cid baseImage (getBuildahCommonOpts True)"
  let ?e0 = "(?c0, eng h ?c0)"
  let ?h1 = "h @ [?e0]"
  show ?thesis
  proof (cases "err (eng h ?c0)")
    case (Some e)
    with assms have "res = Return [] (Some (UnableToCreateContainer baseImage e))"
      "h' = h @ ([] @ ?e0 # [])"
      by (simp_all add: BuildStapelStage_def Let_def invoke_def)
    moreover have "failedStep ?e0" using Some by (simp add: failedStep_def)
    ultimately show ?thesis by (metis stepsOK_simps(1) onlyUmount_simps(1))
  next
    case None
    then have ok0: "stepsOK [?e0]" by (simp add: failedStep_def)
    obtain pr h2 where prep: "prepareContainer eng ?h1 ?cid (PrepareContainerActions opts) = (pr, h2)"
      by (cases "prepareContainer eng ?h1 ?cid (PrepareContainerActions opts)")
    show ?thesis
    proof (cases pr)
      case (Some e)
      with assms None prep have res: "res = Return [] (Some e)" "h' = h2"
        by (simp_all add: BuildStapelStage_def Let_def invoke_def)
      from prepareContainer_Some[OF prep[unfolded Some]] obtain pre ev post where
        "h2 = ?h1 @ pre @ ev # post" "stepsOK pre" "failedStep ev" "onlyUmount post"
        by blast
      with res ok0 have "h' = h @ ((?e0 # pre) @ ev # post) \<and> res = Return [] (Some e) \<and>
          stepsOK (?e0 # pre) \<and> failedStep ev \<and> onlyUmount post"
        by simp
      then show ?thesis by blast
    next
      case None2: None
      from prepareContainer_None[OF prep[unfolded None2]] obtain evs1 root where
        evs1: "h2 = ?h1 @ evs1" "stepsOK evs1"
          "map fst evs1 =
             (if PrepareContainerActions opts = [] then []
              else MountContainer ?cid (getBuildahCommonOpts True)
                   # map (\<lambda>a. PrepareContainer a root) (PrepareContainerActions opts)
                   @ [Umount root (getBuildahCommonOpts True)])"
        by blast
      obtain ur h3 where run: "runUserCommands eng h2 ?cid (BuildVolumes opts) (UserCommands opts) = (ur, h3)"
        by (cases "runUserCommands eng h2 ?cid (BuildVolumes opts) (UserCommands opts)")
      show ?thesis
      proof (cases ur)
        case (Some r)
        with assms None prep None2 run have res: "res = r" "h' = h3"
          by (simp_all add: BuildStapelStage_def Let_def invoke_def)
        from runUserCommands_Some[OF run[unfolded Some]]
        show ?thesis
        proof
          assume "\<exists>v. r = Panic (InvalidVolume v) \<and>
                    find (\<lambda>v. CHR '':'' \<notin> set v) (BuildVolumes opts) = Some v \<and> h3 = h2"
          then obtain v where "r = Panic (InvalidVolume v)" "h3 = h2" by blast
          with res evs1 ok0 have "h' = h @ (?e0 # evs1) \<and> res = Panic (InvalidVolume v) \<and>
              stepsOK (?e0 # evs1)"
            by simp
          then show ?thesis by blast
        next
          assume "\<exists>e pre ev. r = Return [] (Some e) \<and> h3 = h2 @ pre @ [ev] \<and> stepsOK pre \<and>
                    failedStep ev"
          then obtain e pre ev where
            "r = Return [] (Some e)" "h3 = h2 @ pre @ [ev]" "stepsOK pre" "failedStep ev"
            by blast
          with res evs1 ok0 have "h' = h @ ((?e0 # evs1 @ pre) @ ev # []) \<and>
              res = Return [] (Some e) \<and> stepsOK (?e0 # evs1 @ pre) \<and> failedStep ev \<and> onlyUmount []"
            by simp
          then show ?thesis by blast
        qed
      next
        case None3: None
        from runUserCommands_None[OF run[unfolded None3]] obtain evs2 where
          evs2: "h3 = h2 @ evs2" "stepsOK evs2"
            "map fst evs2 =
               map (\<lambda>cmd. RunCommand ?cid [''sh'', ''-c'', cmd] (getBuildahCommonOpts False)
                      (map bindMount (BuildVolumes opts))) (UserCommands opts)"
          by blast
        from assms None prep None2 run None3
        have cc: "configAndCommit eng h3 ?cid (Labels opts) = (res, h')"
          by (simp add: BuildStapelStage_def Let_def invoke_def)
        from configAndCommit_shape[OF cc]
        show ?thesis
        proof
          assume "\<exists>r1 r2. res = Return (ret r2) None \<and>
              h' = h3 @ [(Config ?cid (getBuildahCommonOpts True) (Labels opts), r1),
                         (Commit ?cid (getBuildahCommonOpts True), r2)] \<and>
              err r1 = None \<and> err r2 = None"
          then obtain r1 r2 where
            r: "res = Return (ret r2) None"
               "h' = h3 @ [(Config ?cid (getBuildahCommonOpts True) (Labels opts), r1),
                           (Commit ?cid (getBuildahCommonOpts True), r2)]"
               "err r1 = None" "err r2 = None"
            by blast
          let ?evs = "?e0 # evs1 @ evs2 @
                 [(Config ?cid (getBuildahCommonOpts True) (Labels opts), r1),
                  (Commit ?cid (getBuildahCommonOpts True), r2)]"
          have "h' = h @ ?evs" using r(2) evs1(1) evs2(1) by simp
          moreover have "res = Return (ret (snd (last ?evs))) None" using r(1) by simp
          moreover have "stepsOK ?evs"
            using ok0 evs1(2) evs2(2) r(3,4) by (simp add: failedStep_def)
          moreover have "map fst ?evs = stagePlan ?cid baseImage root opts"
            using evs1(3) evs2(3) by (simp add: stagePlan_def)
          ultimately show ?thesis by blast
        next
          assume "\<exists>e pre ev. res = Return [] (Some e) \<and> h' = h3 @ pre @ [ev] \<and> stepsOK pre \<and>
                    failedStep ev"
          then obtain e pre ev where
            "res = Return [] (Some e)" "h' = h3 @ pre @ [ev]" "stepsOK pre" "failedStep ev"
            by blast
          with evs1 evs2 ok0 have "h' = h @ ((?e0 # evs1 @ evs2 @ pre) @ ev # []) \<and>
              res = Return [] (Some e) \<and> stepsOK (?e0 # evs1 @ evs2 @ pre) \<and> failedStep ev \<and>
              onlyUmount []"
            by simp
          then show ?thesis by blast
        qed
      qed
    qed
  qed
qed


lemma dropWhile_first_failure:
  "stepsOK pre \<Longrightarrow> failedStep ev \<Longrightarrow>
     dropWhile (\<lambda>ev. \<not> failedStep ev) (pre @ ev # post) = ev # post"
  by (induction pre) simp_all

lemma stepsOK_no_failure: "stepsOK evs \<Longrightarrow> ev \<in> set evs \<Longrightarrow> \<not> failedStep ev"
  by (simp add: stepsOK_def list_all_iff)

text \<open>
  C8. A call of \<open>BuildStapelStage\<close> that returns a non-empty identifier returns no error,
  has made exactly the calls of a complete run in their order (container creation from
  the base image; when there are prepare-container actions, the mount, each action and the
  unmount; each user command in list order; the label configuration; the commit), all of
  them successful, and the identifier is the one the commit returned. When a step fails,
  the call returns the empty identifier with an error, and after the first failing step
  nothing is called but the deferred unmount. An error is returned only when a step failed.
\<close>

theorem BuildStapelStage_all_steps_or_error:
  assumes "BuildStapelStage eng h uuid baseImage opts = (res, h')"
  shows "\<exists>evs. h' = h @ evs \<and>
     (\<forall>imgID e. res = Return imgID e \<and> imgID \<noteq> [] \<longrightarrow>
        e = None \<and> stepsOK evs \<and> imgID = ret (snd (last evs)) \<and>
        (\<exists>root. map fst evs = stagePlan (''werf-stage-build-'' @ uuid) baseImage root opts)) \<and>
     ((\<exists>ev \<in> set evs. failedStep ev) \<longrightarrow>
        (\<exists>e. res = Return [] (Some e)) \<and>
        onlyUmount (tl (dropWhile (\<lambda>ev. \<not> failedStep ev) evs))) \<and>
     (\<forall>imgID e. res = Return imgID (Some e) \<longrightarrow> imgID = [] \<and> (\<exists>ev \<in> set evs. failedStep ev))"
proof -
  from BuildStapelStage_shape[OF assms] obtain evs where h': "h' = h @ evs" and
    shape: "(\<exists>root. res = Return (ret (snd (last evs))) None \<and> stepsOK evs \<and>
               map fst evs = stagePlan (''werf-stage-build-'' @ uuid) baseImage root opts) \<or>
            (\<exists>v. res = Panic (InvalidVolume v) \<and> stepsOK evs) \<or>
            (\<exists>e pre ev post. res = Return [] (Some e) \<and> evs = pre @ ev # post \<and> stepsOK pre \<and>
               failedStep ev \<and> onlyUmount post)"
    by blast
  from shape have a: "\<forall>imgID e. res = Return imgID e \<and> imgID \<noteq> [] \<longrightarrow>
        e = None \<and> stepsOK evs \<and> imgID = ret (snd (last evs)) \<and>
        (\<exists>root. map fst evs = stagePlan (''werf-stage-build-'' @ uuid) baseImage root opts)"
    by auto
  from shape have b: "(\<exists>ev \<in> set evs. failedStep ev) \<longrightarrow>
        (\<exists>e. res = Return [] (Some e)) \<and>
        onlyUmount (tl (dropWhile (\<lambda>ev. \<not> failedStep ev) evs))"
  proof (elim disjE exE conjE)
    fix root assume "stepsOK evs"
    then show ?thesis using stepsOK_no_failure by blast
  next
    fix v assume "stepsOK evs"
    then show ?thesis using stepsOK_no_failure by blast
  next
    fix e pre ev post
    assume "res = Return [] (Some e)" "evs = pre @ ev # post" "stepsOK pre" "failedStep ev"
      "onlyUmount post"
    then show ?thesis by (simp add: dropWhile_first_failure)
  qed
  from shape have c: "\<forall>imgID e. res = Return imgID (Some e) \<longrightarrow>
        imgID = [] \<and> (\<exists>ev \<in> set evs. failedStep ev)"
    by auto
  from h' a b c show ?thesis by blast
qed

lemma sample_good_run:
  "BuildStapelStage sampleEngine [] ''u1'' ''alpine'' goodStageOpts =
     (Return ''sha256:built'' None,
      [(FromCommand ''werf-stage-build-u1'' ''alpine'' \<lparr> LogWriter = False \<rparr>, \<lparr> ret = [], err = None \<rparr>),
       (MountContainer ''werf-stage-build-u1'' \<lparr> LogWriter = False \<rparr>, \<lparr> ret = ''/mnt/root'', err = None \<rparr>),
       (PrepareContainer ''copy-sources'' ''/mnt/root'', \<lparr> ret = [], err = None \<rparr>),
       (Umount ''/mnt/root'' \<lparr> LogWriter = False \<rparr>, \<lparr> ret = [], err = None \<rparr>),
       (RunCommand ''werf-stage-build-u1'' [''sh'', ''-c'', ''make''] \<lparr> LogWriter = True \<rparr>
          [\<lparr> Type = ''bind'', Source = ''/cache'', Destination = ''/var/cache'' \<rparr>],
        \<lparr> ret = [], err = None \<rparr>),
       (Config ''werf-stage-build-u1'' \<lparr> LogWriter = False \<rparr> [''stage=build''], \<lparr> ret = [], err = None \<rparr>),
       (Commit ''werf-stage-build-u1'' \<lparr> LogWriter = False \<rparr>, \<lparr> ret = ''sha256:built'', err = None \<rparr>)])"
  by (simp add: BuildStapelStage_def prepareContainer_def configAndCommit_def invoke_def
        sampleEngine_def goodStageOpts_def getBuildahCommonOpts_def SplitN_2 Let_def)

lemma sample_failing_run:
  "BuildStapelStage sampleEngine [] ''u1'' ''alpine'' failingStageOpts =
     (Return [] (Some (UnableToRun ''false'' (Err ''exit status 1''))),
      [(FromCommand ''werf-stage-build-u1'' ''alpine'' \<lparr> LogWriter = False \<rparr>, \<lparr> ret = [], err = None \<rparr>),
       (RunCommand ''werf-stage-build-u1'' [''sh'', ''-c'', ''false''] \<lparr> LogWriter = True \<rparr> [],
        \<lparr> ret = [], err = Some (Err ''exit status 1'') \<rparr>)])"
  by (simp add: BuildStapelStage_def prepareContainer_def configAndCommit_def invoke_def
        sampleEngine_def failingStageOpts_def getBuildahCommonOpts_def SplitN_2 Let_def)


theorem BuildStapelStage_all_steps_or_error_witness:
  "fst (BuildStapelStage sampleEngine [] ''u1'' ''alpine'' goodStageOpts) = Return ''sha256:built'' None \<and>
   stepsOK (snd (BuildStapelStage sampleEngine [] ''u1'' ''alpine'' goodStageOpts)) \<and>
   map fst (snd (BuildStapelStage sampleEngine [] ''u1'' ''alpine'' goodStageOpts)) =
     stagePlan ''werf-stage-build-u1'' ''alpine'' ''/mnt/root'' goodStageOpts \<and>
   fst (BuildStapelStage sampleEngine [] ''u1'' ''alpine'' failingStageOpts) =
     Return [] (Some (UnableToRun ''false'' (Err ''exit status 1''))) \<and>
   failedStep (last (snd (BuildStapelStage sampleEngine [] ''u1'' ''alpine'' failingStageOpts))) \<and>
   onlyUmount (tl (dropWhile (\<lambda>ev. \<not> failedStep ev)
     (snd (BuildStapelStage sampleEngine [] ''u1'' ''alpine'' failingStageOpts))))"
proof -
  define good where "good = snd (BuildStapelStage sampleEngine [] ''u1'' ''alpine'' goodStageOpts)"
  define failing where
    "failing = snd (BuildStapelStage sampleEngine [] ''u1'' ''alpine'' failingStageOpts)"
  have g: "BuildStapelStage sampleEngine [] ''u1'' ''alpine'' goodStageOpts =
             (Return ''sha256:built'' None, good)"
    by (simp add: good_def sample_good_run)
  have f: "BuildStapelStage sampleEngine [] ''u1'' ''alpine'' failingStageOpts =
             (Return [] (Some (UnableToRun ''false'' (Err ''exit status 1''))), failing)"
    by (simp add: failing_def sample_failing_run)
  from BuildStapelStage_all_steps_or_error[OF g] obtain evs where
    "good = [] @ evs" and
    "\<forall>imgID e. Return ''sha256:built'' None = Return imgID e \<and> imgID \<noteq> [] \<longrightarrow>
        e = None \<and> stepsOK evs \<and> imgID = ret (snd (last evs)) \<and>
        (\<exists>root. map fst evs = stagePlan (''werf-stage-build-'' @ ''u1'') ''alpine'' root goodStageOpts)"
    by blast
  then have 1: "stepsOK good" by simp
  have 2: "map fst good = stagePlan ''werf-stage-build-u1'' ''alpine'' ''/mnt/root'' goodStageOpts"
    unfolding good_def sample_good_run
    by (simp add: stagePlan_def goodStageOpts_def getBuildahCommonOpts_def bindMount_def)
  have 3: "failedStep (last failing)"
    by (simp add: failing_def sample_failing_run failedStep_def)
  have "last failing \<in> set failing"
    by (simp add: failing_def sample_failing_run)
  with 3 have ex: "\<exists>ev \<in> set failing. failedStep ev" by blast
  from BuildStapelStage_all_steps_or_error[OF f] obtain evs' where
    "failing = [] @ evs'" and
    "(\<exists>ev \<in> set evs'. failedStep ev) \<longrightarrow>
        (\<exists>e. Return [] (Some (UnableToRun ''false'' (Err ''exit status 1''))) = Return [] (Some e)) \<and>
        onlyUmount (tl (dropWhile (\<lambda>ev. \<not> failedStep ev) evs'))"
    by blast
  with ex have 4: "onlyUmount (tl (dropWhile (\<lambda>ev. \<not> failedStep ev) failing))" by simp
  have g1: "fst (BuildStapelStage sampleEngine [] ''u1'' ''alpine'' goodStageOpts) =
              Return ''sha256:built'' None"
    by (simp add: sample_good_run)
  have f1: "fst (BuildStapelStage sampleEngine [] ''u1'' ''alpine'' failingStageOpts) =
              Return [] (Some (UnableToRun ''false'' (Err ''exit status 1'')))"
    by (simp add: sample_failing_run)
  from g1 f1 1 2 3 4 show ?thesis
    unfolding good_def failing_def by blast
qed








end
